theory Spec2Isabelle
  imports Main "HOL-Library.Char_ord" "HOL-Library.List_Lexorder" "HOL-Library.Sublist"
    "HOL-Library.AList"
begin

section \<open>Keypair commands of openstackclient.compute.v2.keypair\<close>

text \<open>
  The four commands (\<open>CreateKeypair\<close>, \<open>DeleteKeypair\<close>, \<open>ListKeypair\<close>,
  \<open>ShowKeypair\<close>) are embedded as functions from the parsed arguments and the
  collaborating services to an outcome and a transcript. Every call to a collaborator
  (identity service, compute keypair service, file system, standard output, logger) is
  recorded in the transcript together with its answer, in program order. A collaborator
  is a function of the transcript so far and of its arguments, so that a service may
  answer differently after earlier calls (a keypair deleted twice, say).
\<close>

subsection \<open>Values, exceptions, versions\<close>

text \<open>Python values held in a keypair's field dictionary.\<close>

datatype pyval = PNone | PStr string | PInt int

text \<open>
  Exceptions. \<open>CommandError\<close> is \<open>osc_lib.exceptions.CommandError\<close>; \<open>IOError\<close> carries
  its \<open>str()\<close>; \<open>RemoteError\<close> stands for any other exception class a collaborator
  raises. All of them derive from Python's \<open>Exception\<close>.
\<close>

datatype exn =
    CommandError string
  | IOError string
  | KeyError string
  | AttributeError string
  | TypeError
  | RemoteError string

text \<open>
  Modelled from the spec: \<open>ApiVersion\<close>, "a comparable (major, minor) version token"
  with a total order (novaclient's \<open>api_versions.APIVersion\<close> is an external class). The
  order is the order of the pairs (major, minor).
\<close>

datatype APIVersion = APIVersion (ver_major: nat) (ver_minor: nat)

definition ver_lt :: "APIVersion \<Rightarrow> APIVersion \<Rightarrow> bool" where
  "ver_lt a b = (ver_major a < ver_major b \<or> (ver_major a = ver_major b \<and> ver_minor a < ver_minor b))"

definition ver_ge :: "APIVersion \<Rightarrow> APIVersion \<Rightarrow> bool" where
  "ver_ge a b = (ver_lt b a \<or> a = b)"

text \<open>The \<open>choices\<close> of the \<open>--type\<close> option.\<close>

datatype key_type = ssh | x509

text \<open>A user or a project as the identity service returns it; the code reads its \<open>id\<close>.\<close>

datatype identity = Identity (res_id: string)

text \<open>
  Modelled from the spec: the keypair resource (novaclient's resource class is external).
  It is its field dictionary \<open>_info\<close>, and its attributes are the entries of that
  dictionary ("all fields except public_key"); reading an attribute that is not a field
  raises \<open>AttributeError\<close>.
\<close>

datatype keypair = Keypair (kp_info: "(string \<times> pyval) list")

definition getattr :: "keypair \<Rightarrow> string \<Rightarrow> exn + pyval" where
  "getattr k a = (case map_of (kp_info k) a of None \<Rightarrow> Inl (AttributeError a) | Some v \<Rightarrow> Inr v)"

text \<open>Python's truth value of an optional string argument: \<open>None\<close> and \<open>''\<close> are false.\<close>

definition truthy :: "string option \<Rightarrow> bool" where
  "truthy s = (case s of None \<Rightarrow> False | Some x \<Rightarrow> x \<noteq> [])"

text \<open>The string of an optional argument that is given (used under \<open>truthy\<close> only).\<close>

definition str_of :: "string option \<Rightarrow> string" where
  "str_of s = (case s of None \<Rightarrow> [] | Some x \<Rightarrow> x)"

text \<open>\<open>str\<close> of a non-negative integer, as \<open>%s\<close> formats the failure counts.\<close>

function str_nat :: "nat \<Rightarrow> string" where
  "str_nat n = (if n < 10 then [char_of (48 + n)] else str_nat (n div 10) @ [char_of (48 + n mod 10)])"
  by pat_completeness auto
termination
  by (relation "measure id") auto

declare str_nat.simps [simp del]

subsection \<open>Collaborators and the transcript\<close>

record create_kwargs =
  kw_name :: string
  kw_public_key :: "string option"
  kw_key_type :: "key_type option"
  kw_user_id :: "string option"

text \<open>
  One entry per call, with the arguments and the answer. An absent \<open>user_id\<close> keyword
  is \<open>None\<close>.
\<close>

datatype call =
    CFindUser string "string option" "exn + identity"
  | CFindProject string "string option" "exn + identity"
  | CUsersList string "exn + identity list"
  | CKeypairsCreate create_kwargs "exn + keypair"
  | CFindResource string "string option" "exn + keypair"
  | CKeypairsDelete pyval "string option" "exn + unit"
  | CKeypairsList "string option" "exn + keypair list"
  | CReadFile string "exn + string"
  | COpenWrite string "exn + unit"
  | CWriteFile string string "exn + unit"
  | CStdoutWrite string
  | CLogError string exn

fun is_remote :: "call \<Rightarrow> bool" where
  "is_remote (CFindUser _ _ _) = True"
| "is_remote (CFindProject _ _ _) = True"
| "is_remote (CUsersList _ _) = True"
| "is_remote (CKeypairsCreate _ _) = True"
| "is_remote (CFindResource _ _ _) = True"
| "is_remote (CKeypairsDelete _ _ _) = True"
| "is_remote (CKeypairsList _ _) = True"
| "is_remote _ = False"

fun is_create :: "call \<Rightarrow> bool" where
  "is_create (CKeypairsCreate _ _) = True"
| "is_create _ = False"

fun is_log :: "call \<Rightarrow> bool" where
  "is_log (CLogError _ _) = True"
| "is_log _ = False"

text \<open>
  The client manager of the application: the negotiated compute API version and the
  services. \<open>find_user\<close> and \<open>find_project\<close> are \<open>identity_common\<close>'s resolvers,
  \<open>find_resource\<close> and \<open>get_item_properties\<close> are \<open>osc_lib.utils\<close>'s, the others are the
  managers' methods and the file system.
\<close>

record env =
  api_version :: APIVersion
  find_user :: "call list \<Rightarrow> string \<Rightarrow> string option \<Rightarrow> exn + identity"
  find_project :: "call list \<Rightarrow> string \<Rightarrow> string option \<Rightarrow> exn + identity"
  users_list :: "call list \<Rightarrow> string \<Rightarrow> exn + identity list"
  keypairs_create :: "call list \<Rightarrow> create_kwargs \<Rightarrow> exn + keypair"
  find_resource :: "call list \<Rightarrow> string \<Rightarrow> string option \<Rightarrow> exn + keypair"
  keypairs_delete :: "call list \<Rightarrow> pyval \<Rightarrow> string option \<Rightarrow> exn + unit"
  keypairs_list :: "call list \<Rightarrow> string option \<Rightarrow> exn + keypair list"
  expanduser :: "string \<Rightarrow> string"
  read_file :: "call list \<Rightarrow> string \<Rightarrow> exn + string"
  open_write :: "call list \<Rightarrow> string \<Rightarrow> exn + unit"
  write_file :: "call list \<Rightarrow> string \<Rightarrow> string \<Rightarrow> exn + unit"
  get_item_properties :: "keypair \<Rightarrow> string list \<Rightarrow> pyval list"

text \<open>A computation: from the transcript so far to an outcome and the new transcript.\<close>

type_synonym 'a act = "call list \<Rightarrow> (exn + 'a) \<times> call list"

definition ret :: "'a \<Rightarrow> 'a act" where
  "ret a = (\<lambda>tr. (Inr a, tr))"

definition raise :: "exn \<Rightarrow> 'a act" where
  "raise e = (\<lambda>tr. (Inl e, tr))"

definition lift :: "exn + 'a \<Rightarrow> 'a act" where
  "lift r = (\<lambda>tr. (r, tr))"

definition bind :: "'a act \<Rightarrow> ('a \<Rightarrow> 'b act) \<Rightarrow> 'b act" where
  "bind m f = (\<lambda>tr. case m tr of (Inl e, tr') \<Rightarrow> (Inl e, tr') | (Inr a, tr') \<Rightarrow> f a tr')"

text \<open>\<open>try: m except IOError as e: h (str e)\<close>; any other exception passes through.\<close>

definition except_IOError :: "'a act \<Rightarrow> (string \<Rightarrow> 'a act) \<Rightarrow> 'a act" where
  "except_IOError m h = (\<lambda>tr. case m tr of (Inl (IOError s), tr') \<Rightarrow> h s tr' | r \<Rightarrow> r)"

definition do_find_user :: "env \<Rightarrow> string \<Rightarrow> string option \<Rightarrow> identity act" where
  "do_find_user E u d = (\<lambda>tr. let r = find_user E tr u d in (r, tr @ [CFindUser u d r]))"

definition do_find_project :: "env \<Rightarrow> string \<Rightarrow> string option \<Rightarrow> identity act" where
  "do_find_project E p d = (\<lambda>tr. let r = find_project E tr p d in (r, tr @ [CFindProject p d r]))"

definition do_users_list :: "env \<Rightarrow> string \<Rightarrow> identity list act" where
  "do_users_list E p = (\<lambda>tr. let r = users_list E tr p in (r, tr @ [CUsersList p r]))"

definition do_create :: "env \<Rightarrow> create_kwargs \<Rightarrow> keypair act" where
  "do_create E kw = (\<lambda>tr. let r = keypairs_create E tr kw in (r, tr @ [CKeypairsCreate kw r]))"

definition do_find_resource :: "env \<Rightarrow> string \<Rightarrow> string option \<Rightarrow> keypair act" where
  "do_find_resource E n uid = (\<lambda>tr. let r = find_resource E tr n uid in (r, tr @ [CFindResource n uid r]))"

definition do_delete :: "env \<Rightarrow> pyval \<Rightarrow> string option \<Rightarrow> unit act" where
  "do_delete E n uid = (\<lambda>tr. let r = keypairs_delete E tr n uid in (r, tr @ [CKeypairsDelete n uid r]))"

definition do_list :: "env \<Rightarrow> string option \<Rightarrow> keypair list act" where
  "do_list E uid = (\<lambda>tr. let r = keypairs_list E tr uid in (r, tr @ [CKeypairsList uid r]))"

definition do_read_file :: "env \<Rightarrow> string \<Rightarrow> string act" where
  "do_read_file E p = (\<lambda>tr. let r = read_file E tr p in (r, tr @ [CReadFile p r]))"

definition do_open_write :: "env \<Rightarrow> string \<Rightarrow> unit act" where
  "do_open_write E p = (\<lambda>tr. let r = open_write E tr p in (r, tr @ [COpenWrite p r]))"

text \<open>\<open>p.write(v)\<close> and \<open>sys.stdout.write(v)\<close> take a \<open>str\<close> and raise \<open>TypeError\<close> otherwise.\<close>

definition do_write_file :: "env \<Rightarrow> string \<Rightarrow> pyval \<Rightarrow> unit act" where
  "do_write_file E p v = (case v of
      PStr s \<Rightarrow> (\<lambda>tr. let r = write_file E tr p s in (r, tr @ [CWriteFile p s r]))
    | _ \<Rightarrow> raise TypeError)"

definition stdout_write :: "pyval \<Rightarrow> unit act" where
  "stdout_write v = (case v of
      PStr s \<Rightarrow> (\<lambda>tr. (Inr (), tr @ [CStdoutWrite s]))
    | _ \<Rightarrow> raise TypeError)"

subsection \<open>The version gates\<close>

definition type_msg :: string where
  "type_msg = ''--os-compute-api-version 2.2 or greater is required to support the --type option''"

definition user_msg :: string where
  "user_msg = ''--os-compute-api-version 2.10 or greater is required to support the --user option''"

definition project_msg :: string where
  "project_msg = ''--os-compute-api-version 2.10 or greater is required to support the --project option''"

subsection \<open>Result shaping\<close>

text \<open>
  What \<open>take_action\<close> of Create and Show returns: \<open>Zipped items\<close> is
  \<open>zip(*items)\<close> for the sorted items of the field dictionary (the tuple of names and the
  tuple of values), \<open>EmptyDicts\<close> is \<open>({}, {})\<close>.
\<close>

datatype action_result = Zipped "(string \<times> pyval) list" | EmptyDicts

text \<open>
  \<open>info = {}; info.update(d)\<close> on dictionaries as association lists, and
  \<open>sorted(info.items())\<close>: the keys of a dictionary are distinct, so the order of the
  pairs is the order of their keys.
\<close>

definition dict_update :: "(string \<times> pyval) list \<Rightarrow> (string \<times> pyval) list \<Rightarrow> (string \<times> pyval) list" where
  "dict_update info d = AList.merge info d"

definition has_key :: "string \<Rightarrow> (string \<times> pyval) list \<Rightarrow> bool" where
  "has_key k info = (k \<in> fst ` set info)"

definition sorted_items :: "(string \<times> pyval) list \<Rightarrow> (string \<times> pyval) list" where
  "sorted_items info = sort_key fst info"

subsection \<open>The \<open>--user\<close> block\<close>

text \<open>
  Create, Delete and Show hold the same block: \<open>if parsed_args.user:\<close> the 2.10 gate,
  then \<open>kwargs['user_id'] = identity_common.find_user(...).id\<close>. Its value is the
  \<open>user_id\<close> keyword, \<open>None\<close> when the keyword is not set.
\<close>

definition user_kwarg :: "env \<Rightarrow> string option \<Rightarrow> string option \<Rightarrow> string option act" where
  "user_kwarg E user user_domain =
    (case user of
       None \<Rightarrow> ret None
     | Some u \<Rightarrow>
         if u \<noteq> [] then
           if ver_lt (api_version E) (APIVersion 2 10) then raise (CommandError user_msg)
           else bind (do_find_user E u user_domain) (\<lambda>r. ret (Some (res_id r)))
         else ret None)"

subsection \<open>CreateKeypair.take_action\<close>

record create_args =
  c_name :: string
  c_public_key :: "string option"
  c_private_key :: "string option"
  c_type :: "key_type option"
  c_user :: "string option"
  c_user_domain :: "string option"

text \<open>
  The blocks of \<open>take_action\<close> in program order. First the local \<open>public_key\<close>: the
  option's value, replaced by the contents of the file when the value is true.
\<close>

definition read_public_key :: "env \<Rightarrow> create_args \<Rightarrow> string option act" where
  "read_public_key E args =
    (case c_public_key args of
       None \<Rightarrow> ret None
     | Some path \<Rightarrow>
         if path \<noteq> [] then
           except_IOError
             (bind (do_read_file E (expanduser E path)) (\<lambda>text. ret (Some text)))
             (\<lambda>e. raise (CommandError (''Key file '' @ path @ '' not found: '' @ e)))
         else ret (Some path))"

text \<open>\<open>if parsed_args.type:\<close> the 2.2 gate, then \<open>kwargs['key_type']\<close>.\<close>

definition type_kwarg :: "env \<Rightarrow> create_args \<Rightarrow> key_type option act" where
  "type_kwarg E args =
    (case c_type args of
       None \<Rightarrow> ret None
     | Some t \<Rightarrow>
         if ver_lt (api_version E) (APIVersion 2 2) then raise (CommandError type_msg)
         else ret (Some t))"

text \<open>"Save private key into specified file": the file is opened before the attribute is read.\<close>

definition save_private_key :: "env \<Rightarrow> create_args \<Rightarrow> keypair \<Rightarrow> unit act" where
  "save_private_key E args keypair =
    (case c_private_key args of
       None \<Rightarrow> ret ()
     | Some path \<Rightarrow>
         if path \<noteq> [] then
           except_IOError
             (bind (do_open_write E (expanduser E path)) (\<lambda>_.
              bind (lift (getattr keypair ''private_key'')) (\<lambda>v.
              do_write_file E (expanduser E path) v)))
             (\<lambda>e. raise (CommandError (''Key file '' @ path @ '' can not be saved: '' @ e)))
         else ret ())"

text \<open>The result: \<open>if public_key or private_key:\<close> the record, else the key on standard output.\<close>

definition create_result :: "create_args \<Rightarrow> string option \<Rightarrow> keypair \<Rightarrow> action_result act" where
  "create_result args public_key keypair =
    (if truthy public_key \<or> truthy (c_private_key args) then
       (let info = dict_update [] (kp_info keypair);
            info = (if has_key ''public_key'' info then AList.delete ''public_key'' info else info);
            info = (if has_key ''private_key'' info then AList.delete ''private_key'' info else info)
        in ret (Zipped (sorted_items info)))
     else
       bind (lift (getattr keypair ''private_key'')) (\<lambda>v.
       bind (stdout_write v) (\<lambda>_. ret EmptyDicts)))"

definition CreateKeypair_take_action :: "env \<Rightarrow> create_args \<Rightarrow> action_result act" where
  "CreateKeypair_take_action E args =
    bind (read_public_key E args) (\<lambda>public_key.
    bind (type_kwarg E args) (\<lambda>key_type.
    bind (user_kwarg E (c_user args) (c_user_domain args)) (\<lambda>user_id.
    bind (do_create E \<lparr>kw_name = c_name args, kw_public_key = public_key,
                        kw_key_type = key_type, kw_user_id = user_id\<rparr>) (\<lambda>keypair.
    bind (save_private_key E args keypair) (\<lambda>_.
    create_result args public_key keypair)))))"

subsection \<open>DeleteKeypair.take_action\<close>

record delete_args =
  d_name :: "string list"
  d_user :: "string option"
  d_user_domain :: "string option"

text \<open>
  The loop over the names, with the failure counter \<open>result\<close>: \<open>except Exception\<close>
  catches whatever the lookup, the read of \<open>data.name\<close> or the delete raises, counts it
  and logs it.
\<close>

fun delete_loop :: "env \<Rightarrow> string option \<Rightarrow> string list \<Rightarrow> nat \<Rightarrow> call list \<Rightarrow> nat \<times> call list" where
  "delete_loop E uid [] result tr = (result, tr)"
| "delete_loop E uid (n # ns) result tr =
    (case bind (do_find_resource E n None) (\<lambda>data.
          bind (lift (getattr data ''name'')) (\<lambda>nm.
          do_delete E nm uid)) tr of
       (Inl e, tr') \<Rightarrow> delete_loop E uid ns (result + 1) (tr' @ [CLogError n e])
     | (Inr _, tr') \<Rightarrow> delete_loop E uid ns result tr')"

definition failed_msg :: "nat \<Rightarrow> nat \<Rightarrow> string" where
  "failed_msg result total_names = str_nat result @ '' of '' @ str_nat total_names @ '' keys failed to delete.''"

text \<open>
  The loop and the aggregate error after it (the rest of \<open>take_action\<close> once the
  \<open>user_id\<close> keyword is settled).
\<close>

definition delete_names :: "env \<Rightarrow> string option \<Rightarrow> string list \<Rightarrow> unit act" where
  "delete_names E uid names = (\<lambda>tr.
      case delete_loop E uid names 0 tr of
        (result, tr') \<Rightarrow>
          if result > 0 then
            (Inl (CommandError (failed_msg result (length names))), tr')
          else (Inr (), tr'))"

definition DeleteKeypair_take_action :: "env \<Rightarrow> delete_args \<Rightarrow> unit act" where
  "DeleteKeypair_take_action E args =
    bind (user_kwarg E (d_user args) (d_user_domain args)) (\<lambda>user_id.
    delete_names E user_id (d_name args))"

subsection \<open>ListKeypair.take_action\<close>

record list_args =
  l_user :: "string option"
  l_user_domain :: "string option"
  l_project :: "string option"
  l_project_domain :: "string option"

text \<open>\<open>data = []; for user in users: data.extend(keypairs.list(user_id=user.id))\<close>\<close>

fun extend_loop :: "env \<Rightarrow> identity list \<Rightarrow> keypair list \<Rightarrow> keypair list act" where
  "extend_loop E [] data = ret data"
| "extend_loop E (u # us) data =
     bind (do_list E (Some (res_id u))) (\<lambda>ks. extend_loop E us (data @ ks))"

definition ListKeypair_take_action :: "env \<Rightarrow> list_args \<Rightarrow> (string list \<times> pyval list list) act" where
  "ListKeypair_take_action E args =
    bind (if truthy (l_project args) then
            (if ver_lt (api_version E) (APIVersion 2 10) then raise (CommandError project_msg)
             else
               bind (do_find_project E (str_of (l_project args)) (l_project_domain args)) (\<lambda>project.
               bind (do_users_list E (res_id project)) (\<lambda>users.
               extend_loop E users [])))
          else if truthy (l_user args) then
            (if ver_lt (api_version E) (APIVersion 2 10) then raise (CommandError user_msg)
             else
               bind (do_find_user E (str_of (l_user args)) (l_user_domain args)) (\<lambda>user.
               do_list E (Some (res_id user))))
          else do_list E None)
    (\<lambda>data.
      let columns = [''Name'', ''Fingerprint''];
          columns = (if ver_ge (api_version E) (APIVersion 2 2) then columns @ [''Type''] else columns)
      in ret (columns, map (\<lambda>s. get_item_properties E s columns) data))"

subsection \<open>ShowKeypair.take_action\<close>

record show_args =
  s_name :: string
  s_public_key :: bool
  s_user :: "string option"
  s_user_domain :: "string option"

text \<open>The result: the record without \<open>public_key\<close>, or the public key on standard output.\<close>

definition show_result :: "show_args \<Rightarrow> keypair \<Rightarrow> action_result act" where
  "show_result args keypair =
    (let info = dict_update [] (kp_info keypair) in
     if \<not> s_public_key args then
       (if has_key ''public_key'' info
        then ret (Zipped (sorted_items (AList.delete ''public_key'' info)))
        else raise (KeyError ''public_key''))
     else
       bind (lift (getattr keypair ''public_key'')) (\<lambda>v.
       bind (stdout_write v) (\<lambda>_. ret EmptyDicts)))"

definition ShowKeypair_take_action :: "env \<Rightarrow> show_args \<Rightarrow> action_result act" where
  "ShowKeypair_take_action E args =
    bind (user_kwarg E (s_user args) (s_user_domain args)) (\<lambda>user_id.
    bind (do_find_resource E (s_name args) user_id) (\<lambda>keypair.
    show_result args keypair))"

subsection \<open>Reading a transcript\<close>

text \<open>
  The create requests sent, the texts written to standard output, and the
  \<open>user_id\<close> scope of every by-name lookup and of every delete call, in order.
\<close>

definition create_requests :: "call list \<Rightarrow> create_kwargs list" where
  "create_requests tr = concat (map (\<lambda>c. case c of CKeypairsCreate kw _ \<Rightarrow> [kw] | _ \<Rightarrow> []) tr)"

definition stdout_of :: "call list \<Rightarrow> string list" where
  "stdout_of tr = concat (map (\<lambda>c. case c of CStdoutWrite s \<Rightarrow> [s] | _ \<Rightarrow> []) tr)"

definition lookup_scopes :: "call list \<Rightarrow> (string \<times> string option) list" where
  "lookup_scopes tr = concat (map (\<lambda>c. case c of CFindResource n k _ \<Rightarrow> [(n, k)] | _ \<Rightarrow> []) tr)"

definition delete_scopes :: "call list \<Rightarrow> (pyval \<times> string option) list" where
  "delete_scopes tr = concat (map (\<lambda>c. case c of CKeypairsDelete n k _ \<Rightarrow> [(n, k)] | _ \<Rightarrow> []) tr)"

fun is_file_io :: "call \<Rightarrow> bool" where
  "is_file_io (CReadFile _ _) = True"
| "is_file_io (COpenWrite _ _) = True"
| "is_file_io (CWriteFile _ _ _) = True"
| "is_file_io _ = False"

text \<open>The errors of the version gates: a \<open>CommandError\<close> with one of the three gate messages.\<close>

definition is_gate_error :: "exn \<Rightarrow> bool" where
  "is_gate_error e = (e = CommandError type_msg \<or> e = CommandError user_msg \<or> e = CommandError project_msg)"

text \<open>
  The part of the transcript that one name of a bulk delete leaves, after the
  transcript \<open>pre\<close>: the unscoped lookup of that name with the answer the service
  gives after \<open>pre\<close>, then, when a keypair was found and its name read, the delete
  of that name with the \<open>user_id\<close> keyword and the answer the service gives to it,
  and a log entry for the name exactly when the lookup, the read of the name or the
  delete raised. An attempt has failed when it ends with the log entry. The attempts
  for a list of names follow one another, each after the transcript of those before.
\<close>

definition attempt :: "env \<Rightarrow> string option \<Rightarrow> call list \<Rightarrow> string \<Rightarrow> call list \<Rightarrow> bool" where
  "attempt E uid pre n b = (case b of
      CFindResource n' k r # rest \<Rightarrow> n' = n \<and> k = None \<and> r = find_resource E pre n None \<and>
        (case r of
           Inl e \<Rightarrow> rest = [CLogError n e]
         | Inr data \<Rightarrow>
             (case getattr data ''name'' of
                Inl e \<Rightarrow> rest = [CLogError n e]
              | Inr nm \<Rightarrow>
                  (case rest of
                     CKeypairsDelete nm' u d # rest' \<Rightarrow> nm' = nm \<and> u = uid \<and>
                       d = keypairs_delete E (pre @ [CFindResource n None r]) nm uid \<and>
                       rest' = (case d of Inl e \<Rightarrow> [CLogError n e] | Inr _ \<Rightarrow> [])
                   | _ \<Rightarrow> False)))
    | _ \<Rightarrow> False)"

fun attempts :: "env \<Rightarrow> string option \<Rightarrow> call list \<Rightarrow> string list \<Rightarrow> call list list \<Rightarrow> bool" where
  "attempts E uid pre [] bs = (bs = [])"
| "attempts E uid pre (n # ns) bs =
     (case bs of [] \<Rightarrow> False | b # bs' \<Rightarrow> attempt E uid pre n b \<and> attempts E uid (pre @ b) ns bs')"

definition failed :: "call list \<Rightarrow> bool" where
  "failed b = (b \<noteq> [] \<and> is_log (last b))"

subsection \<open>Sample collaborators\<close>

text \<open>
  A small cloud on which the theorems below are run: two stored keypairs \<open>A\<close> and
  \<open>B\<close>, a keypair \<open>locked\<close> that the service refuses to delete, a keypair
  record without a \<open>public_key\<close> field, the user \<open>alice\<close>, the project \<open>proj\<close>
  with two members, and three files.
\<close>

definition lower_char :: "char \<Rightarrow> char" where
  "lower_char c = (if CHR ''A'' \<le> c \<and> c \<le> CHR ''Z'' then char_of (of_char c + (32 :: nat)) else c)"

definition sample_item_properties :: "keypair \<Rightarrow> string list \<Rightarrow> pyval list" where
  "sample_item_properties k cols =
     map (\<lambda>c. case map_of (kp_info k) (map lower_char c) of Some v \<Rightarrow> v | None \<Rightarrow> PStr []) cols"

definition key_a :: keypair where
  "key_a = Keypair [(''name'', PStr ''A''), (''fingerprint'', PStr ''aa:01''),
                    (''public_key'', PStr ''ssh-rsa AAAA''), (''type'', PStr ''ssh''),
                    (''user_id'', PStr ''u1'')]"

definition key_b :: keypair where
  "key_b = Keypair [(''name'', PStr ''B''), (''fingerprint'', PStr ''aa:02''),
                    (''public_key'', PStr ''ssh-rsa BBBB''), (''type'', PStr ''ssh''),
                    (''user_id'', PStr ''u1'')]"

definition key_locked :: keypair where
  "key_locked = Keypair [(''name'', PStr ''locked''), (''fingerprint'', PStr ''aa:04''),
                         (''public_key'', PStr ''ssh-rsa DDDD'')]"

definition key_bare :: keypair where
  "key_bare = Keypair [(''name'', PStr ''bare''), (''fingerprint'', PStr ''aa:03'')]"

definition sample_env :: "APIVersion \<Rightarrow> env" where
  "sample_env v = \<lparr>
     api_version = v,
     find_user = (\<lambda>tr u d. if u = ''alice'' then Inr (Identity ''u1'') else Inl (RemoteError ''no such user'')),
     find_project = (\<lambda>tr p d. if p = ''proj'' then Inr (Identity ''p1'') else Inl (RemoteError ''no such project'')),
     users_list = (\<lambda>tr p. Inr [Identity ''u1'', Identity ''u2'']),
     keypairs_create = (\<lambda>tr kw. Inr (Keypair [(''name'', PStr (kw_name kw)), (''fingerprint'', PStr ''aa:09''),
                                               (''public_key'', PStr ''ssh-rsa CCCC''),
                                               (''private_key'', PStr ''PRIVATE'')])),
     find_resource = (\<lambda>tr n uid. if n = ''A'' then Inr key_a
                                   else if n = ''bare'' then Inr key_bare
                                   else if n = ''locked'' then Inr key_locked
                                   else Inl (CommandError ''not found'')),
     keypairs_delete = (\<lambda>tr n uid. if n = PStr ''locked'' then Inl (RemoteError ''forbidden'')
                                     else Inr ()),
     keypairs_list = (\<lambda>tr uid. if uid = Some ''u1'' then Inr [key_b, key_a] else Inr [key_a]),
     expanduser = (\<lambda>p. p),
     read_file = (\<lambda>tr p. if p = ''id.pub'' then Inr ''ssh-rsa AAAA''
                           else if p = ''empty.pub'' then Inr []
                           else Inl (IOError ''no such file'')),
     open_write = (\<lambda>tr p. Inr ()),
     write_file = (\<lambda>tr p s. Inr ()),
     get_item_properties = sample_item_properties\<rparr>"

definition create_plain :: create_args where
  "create_plain = \<lparr>c_name = ''new'', c_public_key = None, c_private_key = None,
                    c_type = None, c_user = None, c_user_domain = None\<rparr>"

definition show_plain :: show_args where
  "show_plain = \<lparr>s_name = ''A'', s_public_key = False, s_user = None, s_user_domain = None\<rparr>"

definition list_plain :: list_args where
  "list_plain = \<lparr>l_user = None, l_user_domain = None, l_project = None, l_project_domain = None\<rparr>"

section \<open>Properties\<close>

subsection \<open>Transcripts\<close>

lemma ver_ge_iff: "ver_ge a b = (\<not> ver_lt a b)"
  by (cases a; cases b) (auto simp: ver_ge_def ver_lt_def)

lemma create_requests_simps [simp]:
  "create_requests [] = []"
  "create_requests (a @ b) = create_requests a @ create_requests b"
  "create_requests (c # tr) = (case c of CKeypairsCreate kw _ \<Rightarrow> [kw] | _ \<Rightarrow> []) @ create_requests tr"
  by (simp_all add: create_requests_def)

lemma stdout_of_simps [simp]:
  "stdout_of [] = []"
  "stdout_of (a @ b) = stdout_of a @ stdout_of b"
  "stdout_of (c # tr) = (case c of CStdoutWrite s \<Rightarrow> [s] | _ \<Rightarrow> []) @ stdout_of tr"
  by (simp_all add: stdout_of_def)

lemma lookup_scopes_simps [simp]:
  "lookup_scopes [] = []"
  "lookup_scopes (a @ b) = lookup_scopes a @ lookup_scopes b"
  "lookup_scopes (c # tr) = (case c of CFindResource n k _ \<Rightarrow> [(n, k)] | _ \<Rightarrow> []) @ lookup_scopes tr"
  by (simp_all add: lookup_scopes_def)

lemma delete_scopes_simps [simp]:
  "delete_scopes [] = []"
  "delete_scopes (a @ b) = delete_scopes a @ delete_scopes b"
  "delete_scopes (c # tr) = (case c of CKeypairsDelete n k _ \<Rightarrow> [(n, k)] | _ \<Rightarrow> []) @ delete_scopes tr"
  by (simp_all add: delete_scopes_def)

lemma file_io_only:
  assumes "\<forall>c \<in> set ev. is_file_io c"
  shows "create_requests ev = []" "stdout_of ev = []" "filter is_remote ev = []"
    "lookup_scopes ev = []" "CKeypairsCreate kw a \<notin> set ev"
proof -
  have x: "is_file_io c \<Longrightarrow> \<not> is_remote c \<and> (case c of CKeypairsCreate kw _ \<Rightarrow> [kw] | _ \<Rightarrow> []) = []
     \<and> (case c of CStdoutWrite s \<Rightarrow> [s] | _ \<Rightarrow> []) = [] \<and> (case c of CFindResource n k _ \<Rightarrow> [(n, k)] | _ \<Rightarrow> []) = []
     \<and> c \<noteq> CKeypairsCreate kw a" for c
    by (cases c) simp_all
  from assms x show "create_requests ev = []" "stdout_of ev = []" "filter is_remote ev = []"
    "lookup_scopes ev = []" "CKeypairsCreate kw a \<notin> set ev"
    by (induction ev) auto
qed

subsection \<open>The blocks of the commands\<close>

lemma bind_cases:
  "bind m f tr = (r, tr') \<Longrightarrow>
   (\<exists>e. m tr = (Inl e, tr') \<and> r = Inl e) \<or> (\<exists>a tr1. m tr = (Inr a, tr1) \<and> f a tr1 = (r, tr'))"
  by (auto simp: bind_def split: sum.splits prod.splits)

lemma read_public_key_cases:
  assumes "read_public_key E args tr = (r, tr')"
  shows "(\<not> truthy (c_public_key args) \<and> r = Inr (c_public_key args) \<and> tr' = tr) \<or>
         (truthy (c_public_key args) \<and>
          tr' = tr @ [CReadFile (expanduser E (str_of (c_public_key args)))
                        (read_file E tr (expanduser E (str_of (c_public_key args))))] \<and>
          (case read_file E tr (expanduser E (str_of (c_public_key args))) of
             Inr text \<Rightarrow> r = Inr (Some text)
           | Inl (IOError m) \<Rightarrow> r = Inl (CommandError (''Key file '' @ str_of (c_public_key args) @ '' not found: '' @ m))
           | Inl e \<Rightarrow> r = Inl e))"
  using assms
  by (auto simp: read_public_key_def truthy_def str_of_def bind_def ret_def raise_def
      except_IOError_def do_read_file_def Let_def
      split: option.splits if_splits sum.splits exn.splits)

lemma type_kwarg_eq:
  "type_kwarg E args tr =
     (if c_type args \<noteq> None \<and> ver_lt (api_version E) (APIVersion 2 2)
      then Inl (CommandError type_msg) else Inr (c_type args), tr)"
  by (auto simp: type_kwarg_def ret_def raise_def split: option.splits)

lemma user_kwarg_eq:
  "user_kwarg E user ud tr =
     (if \<not> truthy user then (Inr None, tr)
      else if ver_lt (api_version E) (APIVersion 2 10) then (Inl (CommandError user_msg), tr)
      else (case find_user E tr (str_of user) ud of Inl e \<Rightarrow> Inl e | Inr u \<Rightarrow> Inr (Some (res_id u)),
            tr @ [CFindUser (str_of user) ud (find_user E tr (str_of user) ud)]))"
  by (auto simp: user_kwarg_def truthy_def str_of_def bind_def ret_def raise_def do_find_user_def Let_def
      split: option.splits sum.splits)

lemma save_private_key_cases:
  assumes "save_private_key E args kp tr = (r, tr')"
  shows "\<exists>ev. tr' = tr @ ev \<and> (\<forall>c \<in> set ev. is_file_io c) \<and>
              (\<not> truthy (c_private_key args) \<longrightarrow> r = Inr () \<and> ev = [])"
  using assms
  by (auto simp: save_private_key_def truthy_def bind_def ret_def raise_def lift_def
      except_IOError_def do_open_write_def do_write_file_def Let_def
      split: option.splits if_splits sum.splits exn.splits pyval.splits prod.splits)

lemma guarded_delete: "(if has_key k info then AList.delete k info else info) = AList.delete k info"
  by (induction info) (auto simp: has_key_def)

lemma create_result_eq:
  "create_result args pk kp tr =
    (if truthy pk \<or> truthy (c_private_key args) then
       (Inr (Zipped (sorted_items (AList.delete ''private_key'' (AList.delete ''public_key''
                (dict_update [] (kp_info kp)))))), tr)
     else (case getattr kp ''private_key'' of
             Inr (PStr s) \<Rightarrow> (Inr EmptyDicts, tr @ [CStdoutWrite s])
           | Inr _ \<Rightarrow> (Inl TypeError, tr)
           | Inl e \<Rightarrow> (Inl e, tr)))"
  by (simp add: create_result_def guarded_delete Let_def bind_def ret_def raise_def lift_def stdout_write_def
      split: sum.splits pyval.splits)

lemma show_result_eq:
  "show_result args kp tr =
    (if \<not> s_public_key args then
       (if has_key ''public_key'' (kp_info kp)
        then (Inr (Zipped (sorted_items (AList.delete ''public_key'' (dict_update [] (kp_info kp))))), tr)
        else (Inl (KeyError ''public_key''), tr))
     else (case getattr kp ''public_key'' of
             Inr (PStr s) \<Rightarrow> (Inr EmptyDicts, tr @ [CStdoutWrite s])
           | Inr _ \<Rightarrow> (Inl TypeError, tr)
           | Inl e \<Rightarrow> (Inl e, tr)))"
  by (simp add: show_result_def Let_def bind_def ret_def raise_def lift_def stdout_write_def
      dict_update_def has_key_def dom_merge
      split: sum.splits pyval.splits)

lemma bindE:
  assumes "bind m f tr = (r, tr')"
  obtains (fail) e where "m tr = (Inl e, tr')" "r = Inl e"
        | (ok) a tr1 where "m tr = (Inr a, tr1)" "f a tr1 = (r, tr')"
  using bind_cases[OF assms] by blast

lemma create_run:
  assumes run: "CreateKeypair_take_action E args tr0 = (r, tr)"
  obtains
    (read_failed) e where "read_public_key E args tr0 = (Inl e, tr)" "r = Inl e"
  | (type_gate) pk where "read_public_key E args tr0 = (Inr pk, tr)"
      "c_type args \<noteq> None" "ver_lt (api_version E) (APIVersion 2 2)" "r = Inl (CommandError type_msg)"
  | (user_failed) pk tr1 e where "read_public_key E args tr0 = (Inr pk, tr1)"
      "\<not> (c_type args \<noteq> None \<and> ver_lt (api_version E) (APIVersion 2 2))"
      "user_kwarg E (c_user args) (c_user_domain args) tr1 = (Inl e, tr)" "r = Inl e"
  | (create_failed) pk tr1 uid tr2 kw e where "read_public_key E args tr0 = (Inr pk, tr1)"
      "\<not> (c_type args \<noteq> None \<and> ver_lt (api_version E) (APIVersion 2 2))"
      "user_kwarg E (c_user args) (c_user_domain args) tr1 = (Inr uid, tr2)"
      "kw = \<lparr>kw_name = c_name args, kw_public_key = pk, kw_key_type = c_type args, kw_user_id = uid\<rparr>"
      "keypairs_create E tr2 kw = Inl e" "r = Inl e" "tr = tr2 @ [CKeypairsCreate kw (Inl e)]"
  | (save_failed) pk tr1 uid tr2 kw kp e where "read_public_key E args tr0 = (Inr pk, tr1)"
      "\<not> (c_type args \<noteq> None \<and> ver_lt (api_version E) (APIVersion 2 2))"
      "user_kwarg E (c_user args) (c_user_domain args) tr1 = (Inr uid, tr2)"
      "kw = \<lparr>kw_name = c_name args, kw_public_key = pk, kw_key_type = c_type args, kw_user_id = uid\<rparr>"
      "keypairs_create E tr2 kw = Inr kp"
      "save_private_key E args kp (tr2 @ [CKeypairsCreate kw (Inr kp)]) = (Inl e, tr)" "r = Inl e"
  | (shaped) pk tr1 uid tr2 kw kp tr3 where "read_public_key E args tr0 = (Inr pk, tr1)"
      "\<not> (c_type args \<noteq> None \<and> ver_lt (api_version E) (APIVersion 2 2))"
      "user_kwarg E (c_user args) (c_user_domain args) tr1 = (Inr uid, tr2)"
      "kw = \<lparr>kw_name = c_name args, kw_public_key = pk, kw_key_type = c_type args, kw_user_id = uid\<rparr>"
      "keypairs_create E tr2 kw = Inr kp"
      "save_private_key E args kp (tr2 @ [CKeypairsCreate kw (Inr kp)]) = (Inr (), tr3)"
      "create_result args pk kp tr3 = (r, tr)"
proof -
  from run have b1: "bind (read_public_key E args) (\<lambda>public_key.
    bind (type_kwarg E args) (\<lambda>key_type.
    bind (user_kwarg E (c_user args) (c_user_domain args)) (\<lambda>user_id.
    bind (do_create E \<lparr>kw_name = c_name args, kw_public_key = public_key,
                        kw_key_type = key_type, kw_user_id = user_id\<rparr>) (\<lambda>keypair.
    bind (save_private_key E args keypair) (\<lambda>_.
    create_result args public_key keypair))))) tr0 = (r, tr)"
    by (simp only: CreateKeypair_take_action_def)
  show thesis
  proof (rule bindE[OF b1])
    fix e assume "read_public_key E args tr0 = (Inl e, tr)" "r = Inl e"
    then show thesis by (rule read_failed)
  next
    fix pk tr1
    assume rp: "read_public_key E args tr0 = (Inr pk, tr1)"
      and b2: "bind (type_kwarg E args) (\<lambda>key_type.
        bind (user_kwarg E (c_user args) (c_user_domain args)) (\<lambda>user_id.
        bind (do_create E \<lparr>kw_name = c_name args, kw_public_key = pk,
                        kw_key_type = key_type, kw_user_id = user_id\<rparr>) (\<lambda>keypair.
        bind (save_private_key E args keypair) (\<lambda>_.
        create_result args pk keypair)))) tr1 = (r, tr)"
    show thesis
    proof (rule bindE[OF b2])
      fix e assume t: "type_kwarg E args tr1 = (Inl e, tr)" and r: "r = Inl e"
      from t have "c_type args \<noteq> None" "ver_lt (api_version E) (APIVersion 2 2)"
        "e = CommandError type_msg" "tr = tr1"
        by (simp_all add: type_kwarg_eq split: if_splits)
      with rp r show thesis by (intro type_gate[of pk]) simp_all
    next
      fix kt tr1'
      assume t: "type_kwarg E args tr1 = (Inr kt, tr1')"
        and b3: "bind (user_kwarg E (c_user args) (c_user_domain args)) (\<lambda>user_id.
        bind (do_create E \<lparr>kw_name = c_name args, kw_public_key = pk,
                        kw_key_type = kt, kw_user_id = user_id\<rparr>) (\<lambda>keypair.
        bind (save_private_key E args keypair) (\<lambda>_.
        create_result args pk keypair))) tr1' = (r, tr)"
      from t have ng: "\<not> (c_type args \<noteq> None \<and> ver_lt (api_version E) (APIVersion 2 2))"
        and kt: "kt = c_type args" and tr1': "tr1' = tr1"
        by (simp_all add: type_kwarg_eq split: if_splits)
      show thesis
      proof (rule bindE[OF b3])
        fix e assume "user_kwarg E (c_user args) (c_user_domain args) tr1' = (Inl e, tr)" "r = Inl e"
        with rp ng show thesis unfolding tr1' by (intro user_failed[of pk tr1 e])
      next
        fix uid tr2
        assume uk: "user_kwarg E (c_user args) (c_user_domain args) tr1' = (Inr uid, tr2)"
          and b4: "bind (do_create E \<lparr>kw_name = c_name args, kw_public_key = pk,
                        kw_key_type = kt, kw_user_id = uid\<rparr>) (\<lambda>keypair.
            bind (save_private_key E args keypair) (\<lambda>_.
            create_result args pk keypair)) tr2 = (r, tr)"
        define kw where "kw = \<lparr>kw_name = c_name args, kw_public_key = pk,
                        kw_key_type = c_type args, kw_user_id = uid\<rparr>"
        from b4 have b4': "bind (do_create E kw) (\<lambda>keypair.
            bind (save_private_key E args keypair) (\<lambda>_.
            create_result args pk keypair)) tr2 = (r, tr)"
          by (simp only: kw_def kt)
        show thesis
        proof (rule bindE[OF b4'])
          fix e assume "do_create E kw tr2 = (Inl e, tr)" "r = Inl e"
          then have "keypairs_create E tr2 kw = Inl e" "r = Inl e" "tr = tr2 @ [CKeypairsCreate kw (Inl e)]"
            by (auto simp: do_create_def Let_def)
          with rp ng uk kw_def show thesis unfolding tr1' by (intro create_failed[of pk tr1 uid tr2 kw e])
        next
          fix kp tr2'
          assume "do_create E kw tr2 = (Inr kp, tr2')"
            and b5: "bind (save_private_key E args kp) (\<lambda>_. create_result args pk kp) tr2' = (r, tr)"
          then have c: "keypairs_create E tr2 kw = Inr kp" and tr2': "tr2' = tr2 @ [CKeypairsCreate kw (Inr kp)]"
            by (auto simp: do_create_def Let_def)
          show thesis
          proof (rule bindE[OF b5])
            fix e assume "save_private_key E args kp tr2' = (Inl e, tr)" "r = Inl e"
            with rp ng uk kw_def c show thesis unfolding tr1' tr2'
              by (intro save_failed[of pk tr1 uid tr2 kw kp e])
          next
            fix u tr3 assume "save_private_key E args kp tr2' = (Inr u, tr3)" "create_result args pk kp tr3 = (r, tr)"
            with rp ng uk kw_def c show thesis unfolding tr1' tr2'
              by (intro shaped[of pk tr1 uid tr2 kw kp tr3]) simp_all
          qed
        qed
      qed
    qed
  qed
qed

lemma dict_update_empty:
  "distinct (map fst (dict_update [] d))" "map_of (dict_update [] d) = map_of d"
  "has_key k (dict_update [] d) = has_key k d"
  by (simp_all add: dict_update_def distinct_merge merge_conv' has_key_def dom_merge)

lemma sorted_items_props:
  assumes "distinct (map fst info)"
  shows "sorted (map fst (sorted_items info))" "distinct (map fst (sorted_items info))"
    "map_of (sorted_items info) = map_of info" "set (sorted_items info) = set info"
proof -
  show s: "sorted (map fst (sorted_items info))" by (simp add: sorted_items_def)
  show st: "set (sorted_items info) = set info" by (simp add: sorted_items_def)
  from assms show d: "distinct (map fst (sorted_items info))"
    by (simp add: sorted_items_def distinct_map)
  from assms d st show "map_of (sorted_items info) = map_of info"
    by (simp add: map_of_inject_set)
qed

lemma shaped_one:
  "sorted (map fst (sorted_items (AList.delete k (dict_update [] d))))"
  "distinct (map fst (sorted_items (AList.delete k (dict_update [] d))))"
  "map_of (sorted_items (AList.delete k (dict_update [] d))) = (map_of d)(k := None)"
  by (simp_all add: sorted_items_props dict_update_empty distinct_delete delete_conv')

lemma shaped_two:
  "sorted (map fst (sorted_items (AList.delete k2 (AList.delete k1 (dict_update [] d)))))"
  "distinct (map fst (sorted_items (AList.delete k2 (AList.delete k1 (dict_update [] d)))))"
  "map_of (sorted_items (AList.delete k2 (AList.delete k1 (dict_update [] d)))) = (map_of d)(k1 := None, k2 := None)"
  by (simp_all add: sorted_items_props dict_update_empty distinct_delete delete_conv')

text \<open>What the blocks before the create call leave in the transcript.\<close>

lemma read_public_key_tr:
  assumes "read_public_key E args tr = (r, tr')"
  shows "\<exists>ev. tr' = tr @ ev \<and> (\<forall>c \<in> set ev. is_file_io c)"
  using read_public_key_cases[OF assms] by auto

lemma user_kwarg_tr:
  assumes "user_kwarg E u d tr = (r, tr')"
  shows "create_requests tr' = create_requests tr" "stdout_of tr' = stdout_of tr"
    "CKeypairsCreate kw a \<in> set tr' \<longleftrightarrow> CKeypairsCreate kw a \<in> set tr"
  using assms by (auto simp: user_kwarg_eq split: if_splits)

lemma after_read:
  assumes "read_public_key E args [] = (r0, tr1)"
  shows "create_requests tr1 = []" "stdout_of tr1 = []" "CKeypairsCreate kw a \<notin> set tr1"
proof -
  from read_public_key_tr[OF assms] obtain ev where ev: "tr1 = ev" "\<forall>c \<in> set ev. is_file_io c"
    by auto
  then show "create_requests tr1 = []" "stdout_of tr1 = []" "CKeypairsCreate kw a \<notin> set tr1"
    by (simp_all add: file_io_only)
qed

lemma before_create:
  assumes "read_public_key E args [] = (r0, tr1)"
    and "user_kwarg E u d tr1 = (r1, tr2)"
  shows "create_requests tr2 = []" "stdout_of tr2 = []" "CKeypairsCreate kw a \<notin> set tr2"
  using after_read[OF assms(1)] user_kwarg_tr[OF assms(2)] by simp_all

lemma show_run:
  assumes run: "ShowKeypair_take_action E args tr0 = (r, tr)"
  obtains
    (user_failed) e where "user_kwarg E (s_user args) (s_user_domain args) tr0 = (Inl e, tr)" "r = Inl e"
  | (lookup_failed) uid tr1 e where
      "user_kwarg E (s_user args) (s_user_domain args) tr0 = (Inr uid, tr1)"
      "find_resource E tr1 (s_name args) uid = Inl e" "r = Inl e"
      "tr = tr1 @ [CFindResource (s_name args) uid (Inl e)]"
  | (fetched) uid tr1 kp where
      "user_kwarg E (s_user args) (s_user_domain args) tr0 = (Inr uid, tr1)"
      "find_resource E tr1 (s_name args) uid = Inr kp"
      "show_result args kp (tr1 @ [CFindResource (s_name args) uid (Inr kp)]) = (r, tr)"
proof -
  from run have b1: "bind (user_kwarg E (s_user args) (s_user_domain args)) (\<lambda>user_id.
      bind (do_find_resource E (s_name args) user_id) (\<lambda>keypair.
      show_result args keypair)) tr0 = (r, tr)"
    by (simp only: ShowKeypair_take_action_def)
  show thesis
  proof (rule bindE[OF b1])
    fix e assume "user_kwarg E (s_user args) (s_user_domain args) tr0 = (Inl e, tr)" "r = Inl e"
    then show thesis by (rule user_failed)
  next
    fix uid tr1
    assume uk: "user_kwarg E (s_user args) (s_user_domain args) tr0 = (Inr uid, tr1)"
      and b2: "bind (do_find_resource E (s_name args) uid) (\<lambda>keypair.
          show_result args keypair) tr1 = (r, tr)"
    show thesis
    proof (rule bindE[OF b2])
      fix e assume "do_find_resource E (s_name args) uid tr1 = (Inl e, tr)" "r = Inl e"
      then have "find_resource E tr1 (s_name args) uid = Inl e" "r = Inl e"
        "tr = tr1 @ [CFindResource (s_name args) uid (Inl e)]"
        by (auto simp: do_find_resource_def Let_def)
      with uk show thesis by (intro lookup_failed[of uid tr1 e])
    next
      fix kp tr1'
      assume "do_find_resource E (s_name args) uid tr1 = (Inr kp, tr1')"
        and sr: "show_result args kp tr1' = (r, tr)"
      then have "find_resource E tr1 (s_name args) uid = Inr kp"
        "tr1' = tr1 @ [CFindResource (s_name args) uid (Inr kp)]"
        by (auto simp: do_find_resource_def Let_def)
      with uk sr show thesis by (intro fetched[of uid tr1 kp]) simp_all
    qed
  qed
qed

lemma user_kwarg_scopes:
  assumes "user_kwarg E u d tr = (r, tr')"
  shows "lookup_scopes tr' = lookup_scopes tr" "delete_scopes tr' = delete_scopes tr"
    "CFindResource n k a \<in> set tr' \<longleftrightarrow> CFindResource n k a \<in> set tr"
  using assms by (auto simp: user_kwarg_eq split: if_splits)

subsection \<open>Iteration over names and members\<close>

lemma str_nat_small: "str_nat (Suc 0) = ''1''" "str_nat (Suc (Suc 0)) = ''2''"
  by code_simp+

lemma delete_loop_blocks:
  "delete_loop E uid ns res tr = (res', tr') \<Longrightarrow>
   \<exists>bs. tr' = tr @ concat bs \<and> attempts E uid tr ns bs \<and>
        res' = res + length (filter failed bs)"
proof (induction ns arbitrary: res tr)
  case Nil
  then show ?case by simp
next
  case (Cons n ns)
  define step where "step = bind (do_find_resource E n None) (\<lambda>data.
          bind (lift (getattr data ''name'')) (\<lambda>nm. do_delete E nm uid)) tr"
  obtain o1 tr1 where s: "step = (o1, tr1)" by (cases step)
  have "\<exists>b. tr1 @ (case o1 of Inl e \<Rightarrow> [CLogError n e] | Inr _ \<Rightarrow> []) = tr @ b \<and>
            attempt E uid tr n b \<and> failed b = isl o1"
    using s unfolding step_def
    by (auto simp: bind_def do_find_resource_def lift_def do_delete_def Let_def attempt_def failed_def
        split: sum.splits prod.splits)
  then obtain b where b: "tr1 @ (case o1 of Inl e \<Rightarrow> [CLogError n e] | Inr _ \<Rightarrow> []) = tr @ b"
     "attempt E uid tr n b" "failed b = isl o1" by blast
  show ?case
  proof (cases o1)
    case (Inl e)
    with Cons.prems s have "delete_loop E uid ns (res + 1) (tr1 @ [CLogError n e]) = (res', tr')"
      by (simp add: step_def)
    from Cons.IH[OF this] obtain bs where bs: "tr' = (tr1 @ [CLogError n e]) @ concat bs"
      "attempts E uid (tr1 @ [CLogError n e]) ns bs" "res' = res + 1 + length (filter failed bs)"
      by blast
    from b(1) Inl have eq: "tr1 @ [CLogError n e] = tr @ b" by simp
    show ?thesis
      by (rule exI[of _ "b # bs"]) (use b(2,3) bs Inl in \<open>simp add: eq\<close>)
  next
    case (Inr u)
    with Cons.prems s have "delete_loop E uid ns res tr1 = (res', tr')"
      by (simp add: step_def)
    from Cons.IH[OF this] obtain bs where bs: "tr' = tr1 @ concat bs"
      "attempts E uid tr1 ns bs" "res' = res + length (filter failed bs)" by blast
    from b(1) Inr have eq: "tr1 = tr @ b" by simp
    show ?thesis
      by (rule exI[of _ "b # bs"]) (use b(2,3) bs Inr in \<open>simp add: eq\<close>)
  qed
qed

lemma delete_names_blocks:
  assumes "delete_names E uid ns tr0 = (r, tr)"
  shows "\<exists>bs. tr = tr0 @ concat bs \<and> attempts E uid tr0 ns bs \<and>
         r = (if 0 < length (filter failed bs)
              then Inl (CommandError (str_nat (length (filter failed bs)) @ '' of '' @
                                      str_nat (length ns) @ '' keys failed to delete.''))
              else Inr ())"
proof -
  obtain res' tr' where l: "delete_loop E uid ns 0 tr0 = (res', tr')"
    by (cases "delete_loop E uid ns 0 tr0")
  from delete_loop_blocks[OF l] obtain bs where bs: "tr' = tr0 @ concat bs"
    "attempts E uid tr0 ns bs" "res' = length (filter failed bs)" by auto
  from assms l have "tr = tr'"
    "r = (if 0 < res' then Inl (CommandError (failed_msg res' (length ns))) else Inr ())"
    by (auto simp: delete_names_def split: if_splits)
  with bs show ?thesis
    by (intro exI[of _ bs]) (simp add: failed_msg_def)
qed

lemma attempt_shape:
  assumes "attempt E uid pre n b"
  shows "(\<exists>e. b = [CFindResource n None (Inl e), CLogError n e]) \<or>
         (\<exists>kp e. b = [CFindResource n None (Inr kp), CLogError n e]) \<or>
         (\<exists>kp nm e. b = [CFindResource n None (Inr kp), CKeypairsDelete nm uid (Inl e), CLogError n e]) \<or>
         (\<exists>kp nm. b = [CFindResource n None (Inr kp), CKeypairsDelete nm uid (Inr ())])"
proof (cases b)
  case Nil
  with assms show ?thesis by (simp add: attempt_def)
next
  case (Cons c rest)
  show ?thesis
  proof (cases c)
    case (CFindResource n' k r)
    from assms[unfolded attempt_def Cons CFindResource list.case call.case]
    have "n' = n \<and> k = None \<and> r = find_resource E pre n None \<and>
        (case r of
           Inl e \<Rightarrow> rest = [CLogError n e]
         | Inr data \<Rightarrow>
             (case getattr data ''name'' of
                Inl e \<Rightarrow> rest = [CLogError n e]
              | Inr nm \<Rightarrow>
                  (case rest of
                     CKeypairsDelete nm' u d # rest' \<Rightarrow> nm' = nm \<and> u = uid \<and>
                       d = keypairs_delete E (pre @ [CFindResource n None r]) nm uid \<and>
                       rest' = (case d of Inl e \<Rightarrow> [CLogError n e] | Inr _ \<Rightarrow> [])
                   | _ \<Rightarrow> False)))"
      .
    then have nk: "n' = n" "k = None"
      and rf: "(case r of
           Inl e \<Rightarrow> rest = [CLogError n e]
         | Inr data \<Rightarrow>
             (case getattr data ''name'' of
                Inl e \<Rightarrow> rest = [CLogError n e]
              | Inr nm \<Rightarrow>
                  (case rest of
                     CKeypairsDelete nm' u d # rest' \<Rightarrow> nm' = nm \<and> u = uid \<and>
                       d = keypairs_delete E (pre @ [CFindResource n None r]) nm uid \<and>
                       rest' = (case d of Inl e \<Rightarrow> [CLogError n e] | Inr _ \<Rightarrow> [])
                   | _ \<Rightarrow> False)))"
      by blast+
    note b = Cons CFindResource nk
    show ?thesis
    proof (cases r)
      case (Inl e)
      with rf b show ?thesis by simp
    next
      case (Inr data)
      show ?thesis
      proof (cases "getattr data ''name''")
        case (Inl e)
        with rf b Inr show ?thesis by simp
      next
        case nm: (Inr nm)
        show ?thesis
        proof (cases rest)
          case Nil
          with rf Inr nm show ?thesis by simp
        next
          case rest: (Cons c2 rest2)
          show ?thesis
          proof (cases c2)
            case (CKeypairsDelete nm' u d)
            with rf b Inr nm rest show ?thesis
              by (cases d) simp_all
          qed (use rf Inr nm rest in simp_all)
        qed
      qed
    qed
  qed (use assms Cons in \<open>simp_all add: attempt_def\<close>)
qed

lemma attempt_scopes:
  assumes "attempt E uid pre n b"
  shows "lookup_scopes b = [(n, None)]" "\<forall>x \<in> set (delete_scopes b). snd x = uid"
  using attempt_shape[OF assms] by auto

lemma attempts_scopes_both:
  "attempts E uid pre ns bs \<Longrightarrow>
   lookup_scopes (concat bs) = map (\<lambda>n. (n, None)) ns \<and>
   (\<forall>x \<in> set (delete_scopes (concat bs)). snd x = uid)"
proof (induction ns arbitrary: pre bs)
  case Nil
  then show ?case by simp
next
  case (Cons n ns)
  then obtain b bs' where bs: "bs = b # bs'" "attempt E uid pre n b" "attempts E uid (pre @ b) ns bs'"
    by (cases bs) auto
  from Cons.IH[OF bs(3)] attempt_scopes[OF bs(2)] bs(1) show ?case by auto
qed

lemma attempts_scopes:
  assumes "attempts E uid pre ns bs"
  shows "lookup_scopes (concat bs) = map (\<lambda>n. (n, None)) ns"
    "\<forall>x \<in> set (delete_scopes (concat bs)). snd x = uid"
  using attempts_scopes_both[OF assms] by simp_all

lemma delete_without_user:
  assumes "\<not> truthy (d_user args)"
  shows "DeleteKeypair_take_action E args tr0 = delete_names E None (d_name args) tr0"
  using assms by (simp add: DeleteKeypair_take_action_def bind_def user_kwarg_eq)

lemma delete_with_user:
  assumes "truthy (d_user args)" "\<not> ver_lt (api_version E) (APIVersion 2 10)"
    "find_user E tr0 (str_of (d_user args)) (d_user_domain args) = Inr usr"
  shows "DeleteKeypair_take_action E args tr0 =
     delete_names E (Some (res_id usr)) (d_name args)
       (tr0 @ [CFindUser (str_of (d_user args)) (d_user_domain args) (Inr usr)])"
  using assms by (simp add: DeleteKeypair_take_action_def bind_def user_kwarg_eq)

lemma extend_loop_ok:
  "extend_loop E us data tr = (Inr d, tr') \<Longrightarrow>
   \<exists>rs. length rs = length us \<and>
        tr' = tr @ map (\<lambda>(u, ks). CKeypairsList (Some (res_id u)) (Inr ks)) (zip us rs) \<and>
        d = data @ concat rs"
proof (induction us arbitrary: data tr)
  case Nil
  then show ?case by (simp add: ret_def)
next
  case (Cons u us)
  from Cons.prems obtain ks where
    ks: "keypairs_list E tr (Some (res_id u)) = Inr ks" and
    rest: "extend_loop E us (data @ ks) (tr @ [CKeypairsList (Some (res_id u)) (Inr ks)]) = (Inr d, tr')"
    by (auto simp: bind_def do_list_def Let_def split: sum.splits)
  from Cons.IH[OF rest] obtain rs where rs: "length rs = length us"
    "tr' = (tr @ [CKeypairsList (Some (res_id u)) (Inr ks)]) @
           map (\<lambda>(u, ks). CKeypairsList (Some (res_id u)) (Inr ks)) (zip us rs)"
    "d = (data @ ks) @ concat rs" by blast
  show ?case
    by (rule exI[of _ "ks # rs"]) (use rs in simp)
qed

subsection \<open>Runs on the sample collaborators\<close>

lemma sample_list_project_run:
  "ListKeypair_take_action (sample_env (APIVersion 2 10)) (list_plain\<lparr>l_project := Some ''proj''\<rparr>) [] =
     (Inr ([''Name'', ''Fingerprint'', ''Type''],
           [[PStr ''B'', PStr ''aa:02'', PStr ''ssh''],
            [PStr ''A'', PStr ''aa:01'', PStr ''ssh''],
            [PStr ''A'', PStr ''aa:01'', PStr ''ssh'']]),
      [CFindProject ''proj'' None (Inr (Identity ''p1'')),
       CUsersList ''p1'' (Inr [Identity ''u1'', Identity ''u2'']),
       CKeypairsList (Some ''u1'') (Inr [key_b, key_a]),
       CKeypairsList (Some ''u2'') (Inr [key_a])])"
  by code_simp

lemma sample_list_plain_run:
  "ListKeypair_take_action (sample_env (APIVersion 2 1)) list_plain [] =
     (Inr ([''Name'', ''Fingerprint''], [[PStr ''A'', PStr ''aa:01'']]),
      [CKeypairsList None (Inr [key_a])])"
  by code_simp

section \<open>The claims\<close>

text \<open>
  C1. Bulk delete handles the names strictly in input order. For every name it asks
  the service for the keypair of that name and then asks it to delete what was found;
  a failure of either step is caught, counted and logged, and the next name follows.
  So the transcript of Delete (after the resolution of the user, if one is given) is
  one attempt per name, in order, each holding the answers of the service. When \<open>f\<close>
  attempts failed, with \<open>f > 0\<close>, the outcome is the error
  "\<open>f\<close> of \<open>total\<close> keys failed to delete."; with no failure the command returns
  silently. In particular, for the names \<open>[A, B]\<close> where \<open>A\<close> is found and deleted
  and the lookup of \<open>B\<close> fails, delete is called once, for \<open>A\<close>, and the message is
  "1 of 2 keys failed to delete."; and a delete that the service refuses is counted as
  well.
\<close>

theorem C1_bulk_delete:
  "(\<forall>r tr. \<not> truthy (d_user args) \<and> DeleteKeypair_take_action E args [] = (r, tr) \<longrightarrow>
      (\<exists>bs. tr = concat bs \<and> attempts E None [] (d_name args) bs \<and>
         r = (if 0 < length (filter failed bs)
              then Inl (CommandError (str_nat (length (filter failed bs)) @ '' of '' @
                                      str_nat (length (d_name args)) @ '' keys failed to delete.''))
              else Inr ())))
   \<and> (\<forall>r tr usr.
        truthy (d_user args) \<and> \<not> ver_lt (api_version E) (APIVersion 2 10) \<and>
        find_user E [] (str_of (d_user args)) (d_user_domain args) = Inr usr \<and>
        DeleteKeypair_take_action E args [] = (r, tr) \<longrightarrow>
      (\<exists>bs. tr = [CFindUser (str_of (d_user args)) (d_user_domain args) (Inr usr)] @ concat bs \<and>
         attempts E (Some (res_id usr))
           [CFindUser (str_of (d_user args)) (d_user_domain args) (Inr usr)] (d_name args) bs \<and>
         r = (if 0 < length (filter failed bs)
              then Inl (CommandError (str_nat (length (filter failed bs)) @ '' of '' @
                                      str_nat (length (d_name args)) @ '' keys failed to delete.''))
              else Inr ())))
   \<and> (\<forall>kpA nmA e.
        \<not> truthy (d_user args) \<and> d_name args = [A, B] \<and>
        find_resource E [] A None = Inr kpA \<and> getattr kpA ''name'' = Inr nmA \<and>
        keypairs_delete E [CFindResource A None (Inr kpA)] nmA None = Inr () \<and>
        find_resource E [CFindResource A None (Inr kpA), CKeypairsDelete nmA None (Inr ())]
          B None = Inl e \<longrightarrow>
        DeleteKeypair_take_action E args [] =
          (Inl (CommandError ''1 of 2 keys failed to delete.''),
           [CFindResource A None (Inr kpA), CKeypairsDelete nmA None (Inr ()),
            CFindResource B None (Inl e), CLogError B e]))
   \<and> (\<forall>kpA nmA e.
        \<not> truthy (d_user args) \<and> d_name args = [A] \<and>
        find_resource E [] A None = Inr kpA \<and> getattr kpA ''name'' = Inr nmA \<and>
        keypairs_delete E [CFindResource A None (Inr kpA)] nmA None = Inl e \<longrightarrow>
        DeleteKeypair_take_action E args [] =
          (Inl (CommandError ''1 of 1 keys failed to delete.''),
           [CFindResource A None (Inr kpA), CKeypairsDelete nmA None (Inl e), CLogError A e]))"
proof (intro conjI allI impI)
  fix r tr
  assume "\<not> truthy (d_user args) \<and> DeleteKeypair_take_action E args [] = (r, tr)"
  then have nu: "\<not> truthy (d_user args)" and run: "DeleteKeypair_take_action E args [] = (r, tr)"
    by simp_all
  from run have "delete_names E None (d_name args) [] = (r, tr)"
    unfolding delete_without_user[OF nu] .
  from delete_names_blocks[OF this]
  show "\<exists>bs. tr = concat bs \<and> attempts E None [] (d_name args) bs \<and>
         r = (if 0 < length (filter failed bs)
              then Inl (CommandError (str_nat (length (filter failed bs)) @ '' of '' @
                                      str_nat (length (d_name args)) @ '' keys failed to delete.''))
              else Inr ())"
    by simp
next
  fix r tr usr
  assume a: "truthy (d_user args) \<and> \<not> ver_lt (api_version E) (APIVersion 2 10) \<and>
        find_user E [] (str_of (d_user args)) (d_user_domain args) = Inr usr \<and>
        DeleteKeypair_take_action E args [] = (r, tr)"
  then have u: "truthy (d_user args)" "\<not> ver_lt (api_version E) (APIVersion 2 10)"
    "find_user E [] (str_of (d_user args)) (d_user_domain args) = Inr usr"
    and run: "DeleteKeypair_take_action E args [] = (r, tr)"
    by simp_all
  from run have "delete_names E (Some (res_id usr)) (d_name args)
      ([] @ [CFindUser (str_of (d_user args)) (d_user_domain args) (Inr usr)]) = (r, tr)"
    unfolding delete_with_user[OF u] .
  then have "delete_names E (Some (res_id usr)) (d_name args)
      [CFindUser (str_of (d_user args)) (d_user_domain args) (Inr usr)] = (r, tr)"
    by simp
  from delete_names_blocks[OF this]
  show "\<exists>bs. tr = [CFindUser (str_of (d_user args)) (d_user_domain args) (Inr usr)] @ concat bs \<and>
         attempts E (Some (res_id usr))
           [CFindUser (str_of (d_user args)) (d_user_domain args) (Inr usr)] (d_name args) bs \<and>
         r = (if 0 < length (filter failed bs)
              then Inl (CommandError (str_nat (length (filter failed bs)) @ '' of '' @
                                      str_nat (length (d_name args)) @ '' keys failed to delete.''))
              else Inr ())"
    by simp
next
  fix kpA nmA e
  assume a: "\<not> truthy (d_user args) \<and> d_name args = [A, B] \<and>
        find_resource E [] A None = Inr kpA \<and> getattr kpA ''name'' = Inr nmA \<and>
        keypairs_delete E [CFindResource A None (Inr kpA)] nmA None = Inr () \<and>
        find_resource E [CFindResource A None (Inr kpA), CKeypairsDelete nmA None (Inr ())]
          B None = Inl e"
  then have nu: "\<not> truthy (d_user args)" by simp
  from a show "DeleteKeypair_take_action E args [] =
          (Inl (CommandError ''1 of 2 keys failed to delete.''),
           [CFindResource A None (Inr kpA), CKeypairsDelete nmA None (Inr ()),
            CFindResource B None (Inl e), CLogError B e])"
    unfolding delete_without_user[OF nu]
    by (simp add: delete_names_def bind_def do_find_resource_def lift_def
        do_delete_def failed_msg_def str_nat_small Let_def)
next
  fix kpA nmA e
  assume a: "\<not> truthy (d_user args) \<and> d_name args = [A] \<and>
        find_resource E [] A None = Inr kpA \<and> getattr kpA ''name'' = Inr nmA \<and>
        keypairs_delete E [CFindResource A None (Inr kpA)] nmA None = Inl e"
  then have nu: "\<not> truthy (d_user args)" by simp
  from a show "DeleteKeypair_take_action E args [] =
          (Inl (CommandError ''1 of 1 keys failed to delete.''),
           [CFindResource A None (Inr kpA), CKeypairsDelete nmA None (Inl e), CLogError A e])"
    unfolding delete_without_user[OF nu]
    by (simp add: delete_names_def bind_def do_find_resource_def lift_def
        do_delete_def failed_msg_def str_nat_small Let_def)
qed

theorem C1_bulk_delete_witness:
  "DeleteKeypair_take_action (sample_env (APIVersion 2 1))
      \<lparr>d_name = [''A'', ''B''], d_user = None, d_user_domain = None\<rparr> [] =
     (Inl (CommandError ''1 of 2 keys failed to delete.''),
      [CFindResource ''A'' None (Inr key_a), CKeypairsDelete (PStr ''A'') None (Inr ()),
       CFindResource ''B'' None (Inl (CommandError ''not found'')),
       CLogError ''B'' (CommandError ''not found'')])
   \<and> (\<exists>bs. [CFindResource ''A'' None (Inr key_a), CKeypairsDelete (PStr ''A'') None (Inr ()),
             CFindResource ''B'' None (Inl (CommandError ''not found'')),
             CLogError ''B'' (CommandError ''not found'')] = concat bs \<and>
            attempts (sample_env (APIVersion 2 1)) None [] [''A'', ''B''] bs)
   \<and> DeleteKeypair_take_action (sample_env (APIVersion 2 1))
      \<lparr>d_name = [''locked''], d_user = None, d_user_domain = None\<rparr> [] =
     (Inl (CommandError ''1 of 1 keys failed to delete.''),
      [CFindResource ''locked'' None (Inr key_locked),
       CKeypairsDelete (PStr ''locked'') None (Inl (RemoteError ''forbidden'')),
       CLogError ''locked'' (RemoteError ''forbidden'')])
   \<and> (\<exists>bs. snd (DeleteKeypair_take_action (sample_env (APIVersion 2 10))
               \<lparr>d_name = [''A'', ''B''], d_user = Some ''alice'', d_user_domain = None\<rparr> []) =
             [CFindUser ''alice'' None (Inr (Identity ''u1''))] @ concat bs \<and>
            attempts (sample_env (APIVersion 2 10)) (Some ''u1'')
              [CFindUser ''alice'' None (Inr (Identity ''u1''))] [''A'', ''B''] bs)"
proof -
  let ?E = "sample_env (APIVersion 2 1)" and ?E10 = "sample_env (APIVersion 2 10)"
  let ?ab = "\<lparr>d_name = [''A'', ''B''], d_user = None, d_user_domain = None\<rparr>"
  let ?lk = "\<lparr>d_name = [''locked''], d_user = None, d_user_domain = None\<rparr>"
  let ?al = "\<lparr>d_name = [''A'', ''B''], d_user = Some ''alice'', d_user_domain = None\<rparr>"
  have h: "\<not> truthy (d_user ?ab) \<and> d_name ?ab = [''A'', ''B''] \<and>
        find_resource ?E [] ''A'' None = Inr key_a \<and> getattr key_a ''name'' = Inr (PStr ''A'') \<and>
        keypairs_delete ?E [CFindResource ''A'' None (Inr key_a)] (PStr ''A'') None = Inr () \<and>
        find_resource ?E [CFindResource ''A'' None (Inr key_a), CKeypairsDelete (PStr ''A'') None (Inr ())]
          ''B'' None = Inl (CommandError ''not found'')"
    by code_simp
  have nu: "\<not> truthy (d_user ?ab)" by code_simp
  note t = C1_bulk_delete[of ?ab ?E "''A''" "''B''"]
  from t h have run: "DeleteKeypair_take_action ?E ?ab [] =
     (Inl (CommandError ''1 of 2 keys failed to delete.''),
      [CFindResource ''A'' None (Inr key_a), CKeypairsDelete (PStr ''A'') None (Inr ()),
       CFindResource ''B'' None (Inl (CommandError ''not found'')),
       CLogError ''B'' (CommandError ''not found'')])"
    by blast
  with t nu obtain bs where bs: "[CFindResource ''A'' None (Inr key_a), CKeypairsDelete (PStr ''A'') None (Inr ()),
       CFindResource ''B'' None (Inl (CommandError ''not found'')),
       CLogError ''B'' (CommandError ''not found'')] = concat bs"
     "attempts ?E None [] (d_name ?ab) bs"
    by blast
  have k: "\<not> truthy (d_user ?lk) \<and> d_name ?lk = [''locked''] \<and>
        find_resource ?E [] ''locked'' None = Inr key_locked \<and>
        getattr key_locked ''name'' = Inr (PStr ''locked'') \<and>
        keypairs_delete ?E [CFindResource ''locked'' None (Inr key_locked)] (PStr ''locked'') None =
          Inl (RemoteError ''forbidden'')"
    by code_simp
  from C1_bulk_delete[of ?lk ?E "''locked''" "''B''"] k
  have run2: "DeleteKeypair_take_action ?E ?lk [] =
     (Inl (CommandError ''1 of 1 keys failed to delete.''),
      [CFindResource ''locked'' None (Inr key_locked),
       CKeypairsDelete (PStr ''locked'') None (Inl (RemoteError ''forbidden'')),
       CLogError ''locked'' (RemoteError ''forbidden'')])"
    by blast
  have u: "truthy (d_user ?al) \<and> \<not> ver_lt (api_version ?E10) (APIVersion 2 10) \<and>
        find_user ?E10 [] (str_of (d_user ?al)) (d_user_domain ?al) = Inr (Identity ''u1'') \<and>
        DeleteKeypair_take_action ?E10 ?al [] =
          (fst (DeleteKeypair_take_action ?E10 ?al []), snd (DeleteKeypair_take_action ?E10 ?al []))"
    by code_simp
  from C1_bulk_delete[of ?al ?E10 "''A''" "''B''"] u
  obtain bs' where bs': "snd (DeleteKeypair_take_action ?E10 ?al []) =
      [CFindUser (str_of (d_user ?al)) (d_user_domain ?al) (Inr (Identity ''u1''))] @ concat bs'"
    "attempts ?E10 (Some (res_id (Identity ''u1'')))
       [CFindUser (str_of (d_user ?al)) (d_user_domain ?al) (Inr (Identity ''u1''))] (d_name ?al) bs'"
    by blast
  have ev: "str_of (d_user ?al) = ''alice''" "d_user_domain ?al = None" "d_name ?al = [''A'', ''B'']"
    "d_name ?ab = [''A'', ''B'']" "res_id (Identity ''u1'') = ''u1''"
    by code_simp+
  from run bs run2 bs' show ?thesis unfolding ev by blast
qed

text \<open>
  C2. A List with \<open>--project=P\<close> that returns has resolved \<open>P\<close>, has asked for the
  members of the project, and has listed the keypairs of each member in the order the
  members were returned, and nothing else. Its rows are the rows of the concatenation
  of these lists in that order: nothing is dropped, merged or sorted.
\<close>

theorem C2_project_listing:
  assumes "ListKeypair_take_action E args [] = (Inr (cols, rows), tr)"
    and "truthy (l_project args)"
  shows "\<exists>p us rs.
      tr = [CFindProject (str_of (l_project args)) (l_project_domain args) (Inr p),
            CUsersList (res_id p) (Inr us)]
           @ map (\<lambda>(u, ks). CKeypairsList (Some (res_id u)) (Inr ks)) (zip us rs) \<and>
      length rs = length us \<and>
      rows = map (\<lambda>s. get_item_properties E s cols) (concat rs)"
proof -
  from assms obtain p us d where
    loop: "extend_loop E us [] [CFindProject (str_of (l_project args)) (l_project_domain args) (Inr p),
            CUsersList (res_id p) (Inr us)] = (Inr d, tr)" and
    rows: "rows = map (\<lambda>s. get_item_properties E s cols) d"
    by (auto simp: ListKeypair_take_action_def bind_def ret_def raise_def do_find_project_def
        do_users_list_def Let_def split: if_splits sum.splits prod.splits)
  from extend_loop_ok[OF loop] obtain rs where "length rs = length us"
    "tr = [CFindProject (str_of (l_project args)) (l_project_domain args) (Inr p),
            CUsersList (res_id p) (Inr us)] @
          map (\<lambda>(u, ks). CKeypairsList (Some (res_id u)) (Inr ks)) (zip us rs)"
    "d = concat rs" by auto
  with rows show ?thesis by blast
qed

theorem C2_project_listing_witness:
  "\<exists>p us rs.
      [CFindProject ''proj'' None (Inr (Identity ''p1'')),
       CUsersList ''p1'' (Inr [Identity ''u1'', Identity ''u2'']),
       CKeypairsList (Some ''u1'') (Inr [key_b, key_a]),
       CKeypairsList (Some ''u2'') (Inr [key_a])] =
        [CFindProject (str_of (l_project (list_plain\<lparr>l_project := Some ''proj''\<rparr>)))
           (l_project_domain (list_plain\<lparr>l_project := Some ''proj''\<rparr>)) (Inr p),
         CUsersList (res_id p) (Inr us)]
        @ map (\<lambda>(u, ks). CKeypairsList (Some (res_id u)) (Inr ks)) (zip us rs) \<and>
      length rs = length us \<and>
      [[PStr ''B'', PStr ''aa:02'', PStr ''ssh''],
       [PStr ''A'', PStr ''aa:01'', PStr ''ssh''],
       [PStr ''A'', PStr ''aa:01'', PStr ''ssh'']] =
        map (\<lambda>s. get_item_properties (sample_env (APIVersion 2 10)) s [''Name'', ''Fingerprint'', ''Type''])
          (concat rs)"
proof -
  have t: "truthy (l_project (list_plain\<lparr>l_project := Some ''proj''\<rparr>))" by code_simp
  show ?thesis by (rule C2_project_listing[OF sample_list_project_run t])
qed

text \<open>
  C5. Whatever the filter mode, a List that returns has the columns
  \<open>(Name, Fingerprint)\<close> when the negotiated version is below 2.2 and
  \<open>(Name, Fingerprint, Type)\<close> when it is 2.2 or greater.
\<close>

theorem C5_list_columns:
  assumes "ListKeypair_take_action E args tr0 = (Inr (cols, rows), tr)"
  shows "cols = (if ver_lt (api_version E) (APIVersion 2 2) then [''Name'', ''Fingerprint'']
                 else [''Name'', ''Fingerprint'', ''Type''])"
  using assms
  by (auto simp: ListKeypair_take_action_def bind_def ret_def Let_def ver_ge_iff
      split: sum.splits prod.splits)

theorem C5_list_columns_witness:
  "[''Name'', ''Fingerprint''] =
     (if ver_lt (api_version (sample_env (APIVersion 2 1))) (APIVersion 2 2)
      then [''Name'', ''Fingerprint''] else [''Name'', ''Fingerprint'', ''Type''])"
  by (rule C5_list_columns[OF sample_list_plain_run])

text \<open>
  C3 (amended). Create with a type given, when the public-key file, if one is named, has
  been read: below version 2.2 the command fails with the gate error, whose message
  contains "2.2" and "--type", and no create request is sent; from 2.2 on every create
  request sent carries \<open>key_type\<close> equal to the type, and without a user argument
  exactly one is sent. (As stated, for every Create with a type, the claim fails: an
  unreadable public-key file is reported first.)
\<close>

theorem C3_type_gate:
  assumes ty: "c_type args = Some t"
    and rd: "truthy (c_public_key args) \<longrightarrow>
           \<not> isl (read_file E [] (expanduser E (str_of (c_public_key args))))"
    and run: "CreateKeypair_take_action E args [] = (r, tr)"
  shows "(ver_lt (api_version E) (APIVersion 2 2) \<longrightarrow>
            r = Inl (CommandError type_msg) \<and> sublist ''2.2'' type_msg \<and>
            sublist ''--type'' type_msg \<and> create_requests tr = [])
       \<and> (\<not> ver_lt (api_version E) (APIVersion 2 2) \<longrightarrow>
            (\<forall>kw \<in> set (create_requests tr). kw_key_type kw = Some t) \<and>
            (\<not> truthy (c_user args) \<longrightarrow> length (create_requests tr) = 1))"
proof -
  have m: "sublist ''2.2'' type_msg" "sublist ''--type'' type_msg" by code_simp+
  have rd_ok: "\<not> isl r0" if "read_public_key E args [] = (r0, tr1)" for r0 tr1
    using read_public_key_cases[OF that] rd by (auto split: sum.splits)
  from run show ?thesis
  proof (cases rule: create_run)
    case (read_failed e)
    with rd_ok show ?thesis by fastforce
  next
    case (type_gate pk)
    from read_public_key_tr[OF type_gate(1)] obtain ev where "tr = ev" "\<forall>c \<in> set ev. is_file_io c" by auto
    then have "create_requests tr = []" by (simp add: file_io_only)
    with type_gate m show ?thesis by simp
  next
    case (user_failed pk tr1 e)
    from read_public_key_tr[OF user_failed(1)] obtain ev where "tr1 = ev" "\<forall>c \<in> set ev. is_file_io c" by auto
    then have "create_requests tr1 = []" by (simp add: file_io_only)
    with user_kwarg_tr(1)[OF user_failed(3)] have "create_requests tr = []" by simp
    moreover from user_failed(3) have "truthy (c_user args)" by (auto simp: user_kwarg_eq split: if_splits)
    ultimately show ?thesis using user_failed(2) ty by simp
  next
    case (create_failed pk tr1 uid tr2 kw e)
    from read_public_key_tr[OF create_failed(1)] obtain ev where "tr1 = ev" "\<forall>c \<in> set ev. is_file_io c" by auto
    then have "create_requests tr1 = []" by (simp add: file_io_only)
    with user_kwarg_tr(1)[OF create_failed(3)] have "create_requests tr2 = []" by simp
    with create_failed ty show ?thesis by simp
  next
    case (save_failed pk tr1 uid tr2 kw kp e)
    from read_public_key_tr[OF save_failed(1)] obtain ev where "tr1 = ev" "\<forall>c \<in> set ev. is_file_io c" by auto
    then have "create_requests tr1 = []" by (simp add: file_io_only)
    with user_kwarg_tr(1)[OF save_failed(3)] have "create_requests tr2 = []" by simp
    moreover from save_private_key_cases[OF save_failed(6)] obtain ev' where
      "tr = (tr2 @ [CKeypairsCreate kw (Inr kp)]) @ ev'" "\<forall>c \<in> set ev'. is_file_io c" by auto
    ultimately have "create_requests tr = [kw]" by (simp add: file_io_only)
    with save_failed ty show ?thesis by simp
  next
    case (shaped pk tr1 uid tr2 kw kp tr3)
    from read_public_key_tr[OF shaped(1)] obtain ev where "tr1 = ev" "\<forall>c \<in> set ev. is_file_io c" by auto
    then have "create_requests tr1 = []" by (simp add: file_io_only)
    with user_kwarg_tr(1)[OF shaped(3)] have "create_requests tr2 = []" by simp
    moreover from save_private_key_cases[OF shaped(6)] obtain ev' where
      "tr3 = (tr2 @ [CKeypairsCreate kw (Inr kp)]) @ ev'" "\<forall>c \<in> set ev'. is_file_io c" by auto
    ultimately have "create_requests tr3 = [kw]" by (simp add: file_io_only)
    moreover from shaped(7) have "create_requests tr = create_requests tr3"
      by (auto simp: create_result_eq split: if_splits sum.splits pyval.splits)
    ultimately show ?thesis using shaped ty by simp
  qed
qed

lemma sample_missing_file_21:
  "CreateKeypair_take_action (sample_env (APIVersion 2 1))
      (create_plain\<lparr>c_public_key := Some ''missing.pub'', c_type := Some ssh\<rparr>) [] =
     (Inl (CommandError ''Key file missing.pub not found: no such file''),
      [CReadFile ''missing.pub'' (Inl (IOError ''no such file''))])"
  by code_simp

theorem C3_type_gate_counterexample:
  "c_type (create_plain\<lparr>c_public_key := Some ''missing.pub'', c_type := Some ssh\<rparr>) = Some ssh \<and>
   ver_lt (api_version (sample_env (APIVersion 2 1))) (APIVersion 2 2) \<and>
   CreateKeypair_take_action (sample_env (APIVersion 2 1))
      (create_plain\<lparr>c_public_key := Some ''missing.pub'', c_type := Some ssh\<rparr>) [] =
     (Inl (CommandError ''Key file missing.pub not found: no such file''),
      [CReadFile ''missing.pub'' (Inl (IOError ''no such file''))]) \<and>
   \<not> sublist ''2.2'' ''Key file missing.pub not found: no such file'' \<and>
   \<not> sublist ''--type'' ''Key file missing.pub not found: no such file''"
proof -
  have "c_type (create_plain\<lparr>c_public_key := Some ''missing.pub'', c_type := Some ssh\<rparr>) = Some ssh"
    by code_simp
  moreover have "ver_lt (api_version (sample_env (APIVersion 2 1))) (APIVersion 2 2)"
    by code_simp
  moreover have "\<not> sublist ''2.2'' ''Key file missing.pub not found: no such file''"
    by code_simp
  moreover have "\<not> sublist ''--type'' ''Key file missing.pub not found: no such file''"
    by code_simp
  ultimately show ?thesis using sample_missing_file_21 by blast
qed

theorem C3_type_gate_witness:
  "fst (CreateKeypair_take_action (sample_env (APIVersion 2 1))
          (create_plain\<lparr>c_public_key := Some ''id.pub'', c_type := Some ssh\<rparr>) []) =
     Inl (CommandError type_msg) \<and>
   create_requests (snd (CreateKeypair_take_action (sample_env (APIVersion 2 1))
          (create_plain\<lparr>c_public_key := Some ''id.pub'', c_type := Some ssh\<rparr>) [])) = [] \<and>
   length (create_requests (snd (CreateKeypair_take_action (sample_env (APIVersion 2 2))
          (create_plain\<lparr>c_public_key := Some ''id.pub'', c_type := Some ssh\<rparr>) []))) = 1"
proof -
  let ?A = "create_plain\<lparr>c_public_key := Some ''id.pub'', c_type := Some ssh\<rparr>"
  let ?E1 = "sample_env (APIVersion 2 1)" and ?E2 = "sample_env (APIVersion 2 2)"
  have ty: "c_type ?A = Some ssh" by code_simp
  have rd1: "truthy (c_public_key ?A) \<longrightarrow>
           \<not> isl (read_file ?E1 [] (expanduser ?E1 (str_of (c_public_key ?A))))" by code_simp
  have rd2: "truthy (c_public_key ?A) \<longrightarrow>
           \<not> isl (read_file ?E2 [] (expanduser ?E2 (str_of (c_public_key ?A))))" by code_simp
  have v1: "ver_lt (api_version ?E1) (APIVersion 2 2)" by code_simp
  have v2: "\<not> ver_lt (api_version ?E2) (APIVersion 2 2)" by code_simp
  have u: "\<not> truthy (c_user ?A)" by code_simp
  from C3_type_gate[OF ty rd1 prod.collapse[symmetric]] v1
  have a: "fst (CreateKeypair_take_action ?E1 ?A []) = Inl (CommandError type_msg)"
    "create_requests (snd (CreateKeypair_take_action ?E1 ?A [])) = []"
    by blast+
  from C3_type_gate[OF ty rd2 prod.collapse[symmetric]] v2 u
  have "length (create_requests (snd (CreateKeypair_take_action ?E2 ?A []))) = 1"
    by blast
  with a show ?thesis by blast
qed

text \<open>
  C4 (amended). With a user argument and a negotiated version below 2.10 every command
  aborts before any remote service is contacted: Delete, List and Show fail with the
  gate error on an empty transcript (no identity call, no lookup, no delete), and Create
  fails having sent no remote call at all. In Create the failure is a gate error
  provided the public-key file, if one is named, has been read. (As stated the claim
  fails for Create: an unreadable public-key file is reported before the gate.)
\<close>

theorem C4_user_gate:
  assumes old: "ver_lt (api_version E) (APIVersion 2 10)"
  shows "(truthy (c_user ca) \<longrightarrow>
            isl (fst (CreateKeypair_take_action E ca [])) \<and>
            filter is_remote (snd (CreateKeypair_take_action E ca [])) = [] \<and>
            ((truthy (c_public_key ca) \<longrightarrow>
                \<not> isl (read_file E [] (expanduser E (str_of (c_public_key ca))))) \<longrightarrow>
              fst (CreateKeypair_take_action E ca []) =
                Inl (CommandError (if c_type ca \<noteq> None \<and> ver_lt (api_version E) (APIVersion 2 2)
                                   then type_msg else user_msg)) \<and>
              is_gate_error (CommandError (if c_type ca \<noteq> None \<and> ver_lt (api_version E) (APIVersion 2 2)
                                   then type_msg else user_msg))))
       \<and> (truthy (d_user da) \<longrightarrow>
            DeleteKeypair_take_action E da [] = (Inl (CommandError user_msg), []))
       \<and> (truthy (l_user la) \<longrightarrow>
            ListKeypair_take_action E la [] =
              (Inl (CommandError (if truthy (l_project la) then project_msg else user_msg)), []))
       \<and> (truthy (s_user sa) \<longrightarrow>
            ShowKeypair_take_action E sa [] = (Inl (CommandError user_msg), []))
       \<and> is_gate_error (CommandError user_msg) \<and> is_gate_error (CommandError project_msg)"
proof -
  have create: "isl r \<and> filter is_remote tr = [] \<and>
      ((truthy (c_public_key ca) \<longrightarrow>
            \<not> isl (read_file E [] (expanduser E (str_of (c_public_key ca))))) \<longrightarrow>
        r = Inl (CommandError (if c_type ca \<noteq> None \<and> ver_lt (api_version E) (APIVersion 2 2)
                               then type_msg else user_msg)))"
    if u: "truthy (c_user ca)" and run: "CreateKeypair_take_action E ca [] = (r, tr)" for r tr
  proof -
    have uk: "user_kwarg E (c_user ca) (c_user_domain ca) t = (Inl (CommandError user_msg), t)" for t
      using u old by (simp add: user_kwarg_eq)
    from run show ?thesis
    proof (cases rule: create_run)
      case (read_failed e)
      from read_public_key_tr[OF read_failed(1)] have "filter is_remote tr = []"
        by (auto simp: file_io_only)
      moreover from read_public_key_cases[OF read_failed(1)]
      have "truthy (c_public_key ca) \<and>
            isl (read_file E [] (expanduser E (str_of (c_public_key ca))))"
        by (auto split: sum.splits)
      ultimately show ?thesis using read_failed(2) by simp
    next
      case (type_gate pk)
      from read_public_key_tr[OF type_gate(1)] have "filter is_remote tr = []"
        by (auto simp: file_io_only)
      with type_gate show ?thesis by simp
    next
      case (user_failed pk tr1 e)
      from read_public_key_tr[OF user_failed(1)] have "filter is_remote tr1 = []"
        by (auto simp: file_io_only)
      with user_failed uk[of tr1] show ?thesis by auto
    next
      case (create_failed pk tr1 uid tr2 kw e)
      with uk[of tr1] show ?thesis by simp
    next
      case (save_failed pk tr1 uid tr2 kw kp e)
      with uk[of tr1] show ?thesis by simp
    next
      case (shaped pk tr1 uid tr2 kw kp tr3)
      with uk[of tr1] show ?thesis by simp
    qed
  qed
  have g: "is_gate_error (CommandError type_msg)" "is_gate_error (CommandError user_msg)"
    "is_gate_error (CommandError project_msg)"
    by (simp_all add: is_gate_error_def)
  have delete: "DeleteKeypair_take_action E da [] = (Inl (CommandError user_msg), [])"
    if "truthy (d_user da)"
    using that old by (simp add: DeleteKeypair_take_action_def bind_def user_kwarg_eq)
  have shw: "ShowKeypair_take_action E sa [] = (Inl (CommandError user_msg), [])"
    if "truthy (s_user sa)"
    using that old by (simp add: ShowKeypair_take_action_def bind_def user_kwarg_eq)
  have lst: "ListKeypair_take_action E la [] =
              (Inl (CommandError (if truthy (l_project la) then project_msg else user_msg)), [])"
    if "truthy (l_user la)"
    using that old by (simp add: ListKeypair_take_action_def bind_def raise_def)
  from create[OF _ prod.collapse[symmetric]] g delete shw lst show ?thesis
    by (simp split: if_splits)
qed

lemma sample_missing_file_29:
  "CreateKeypair_take_action (sample_env (APIVersion 2 9))
      (create_plain\<lparr>c_public_key := Some ''missing.pub'', c_user := Some ''alice''\<rparr>) [] =
     (Inl (CommandError ''Key file missing.pub not found: no such file''),
      [CReadFile ''missing.pub'' (Inl (IOError ''no such file''))])"
  by code_simp

theorem C4_user_gate_counterexample:
  "truthy (c_user (create_plain\<lparr>c_public_key := Some ''missing.pub'', c_user := Some ''alice''\<rparr>)) \<and>
   ver_lt (api_version (sample_env (APIVersion 2 9))) (APIVersion 2 10) \<and>
   CreateKeypair_take_action (sample_env (APIVersion 2 9))
      (create_plain\<lparr>c_public_key := Some ''missing.pub'', c_user := Some ''alice''\<rparr>) [] =
     (Inl (CommandError ''Key file missing.pub not found: no such file''),
      [CReadFile ''missing.pub'' (Inl (IOError ''no such file''))]) \<and>
   \<not> is_gate_error (CommandError ''Key file missing.pub not found: no such file'')"
proof -
  have "truthy (c_user (create_plain\<lparr>c_public_key := Some ''missing.pub'', c_user := Some ''alice''\<rparr>))"
    by code_simp
  moreover have "ver_lt (api_version (sample_env (APIVersion 2 9))) (APIVersion 2 10)"
    by code_simp
  moreover have "\<not> is_gate_error (CommandError ''Key file missing.pub not found: no such file'')"
    by code_simp
  ultimately show ?thesis using sample_missing_file_29 by blast
qed

theorem C4_user_gate_witness:
  "fst (CreateKeypair_take_action (sample_env (APIVersion 2 9)) (create_plain\<lparr>c_user := Some ''alice''\<rparr>) []) =
     Inl (CommandError user_msg) \<and>
   filter is_remote (snd (CreateKeypair_take_action (sample_env (APIVersion 2 9))
                            (create_plain\<lparr>c_user := Some ''alice''\<rparr>) [])) = [] \<and>
   DeleteKeypair_take_action (sample_env (APIVersion 2 9))
      \<lparr>d_name = [''A'', ''B''], d_user = Some ''alice'', d_user_domain = None\<rparr> [] =
     (Inl (CommandError user_msg), []) \<and>
   ListKeypair_take_action (sample_env (APIVersion 2 9)) (list_plain\<lparr>l_user := Some ''alice''\<rparr>) [] =
     (Inl (CommandError user_msg), []) \<and>
   ShowKeypair_take_action (sample_env (APIVersion 2 9)) (show_plain\<lparr>s_user := Some ''alice''\<rparr>) [] =
     (Inl (CommandError user_msg), [])"
proof -
  let ?E = "sample_env (APIVersion 2 9)"
  let ?ca = "create_plain\<lparr>c_user := Some ''alice''\<rparr>"
  let ?da = "\<lparr>d_name = [''A'', ''B''], d_user = Some ''alice'', d_user_domain = None\<rparr>"
  let ?la = "list_plain\<lparr>l_user := Some ''alice''\<rparr>"
  let ?sa = "show_plain\<lparr>s_user := Some ''alice''\<rparr>"
  have old: "ver_lt (api_version ?E) (APIVersion 2 10)" by code_simp
  have h: "truthy (c_user ?ca)" "\<not> truthy (c_public_key ?ca)" "c_type ?ca = None"
    "truthy (d_user ?da)" "truthy (l_user ?la)" "\<not> truthy (l_project ?la)" "truthy (s_user ?sa)"
    by code_simp+
  from C4_user_gate[OF old, of ?ca ?da ?la ?sa] h show ?thesis
    by simp
qed

text \<open>
  Create with a public-key file that has been read: every create request sent carries
  \<open>public_key\<close> equal to the text of the file, empty or not. When the text is not
  empty, a result, when one is returned, is the record of the fields of the keypair
  that the create call returned, without \<open>public_key\<close> and \<open>private_key\<close>,
  sorted by field name, and without a private-key path a result is returned as soon as
  the create call has returned a keypair.
\<close>

lemma create_public_key_record:
  assumes pk: "c_public_key args = Some p" "p \<noteq> []"
    and rd: "read_file E [] (expanduser E p) = Inr text"
    and run: "CreateKeypair_take_action E args [] = (r, tr)"
  shows "(\<forall>kw \<in> set (create_requests tr). kw_public_key kw = Some text) \<and>
     (text \<noteq> [] \<longrightarrow> (\<forall>res. r = Inr res \<longrightarrow>
        (\<exists>kw kp items. CKeypairsCreate kw (Inr kp) \<in> set tr \<and> res = Zipped items \<and>
           sorted (map fst items) \<and> distinct (map fst items) \<and>
           ''public_key'' \<notin> fst ` set items \<and> ''private_key'' \<notin> fst ` set items \<and>
           map_of items = (map_of (kp_info kp))(''public_key'' := None, ''private_key'' := None)))) \<and>
     (text \<noteq> [] \<and> \<not> truthy (c_private_key args) \<longrightarrow>
        (\<forall>kw kp. CKeypairsCreate kw (Inr kp) \<in> set tr \<longrightarrow> \<not> isl r))"
proof -
  have rp: "r0 = Inr (Some text)" if "read_public_key E args [] = (r0, tr1)" for r0 tr1
    using read_public_key_cases[OF that] pk rd by (auto simp: truthy_def str_of_def)
  from run show ?thesis
  proof (cases rule: create_run)
    case (read_failed e)
    with rp show ?thesis by fastforce
  next
    case (type_gate pk')
    from after_read(1,3)[OF type_gate(1)] type_gate(4) show ?thesis by simp
  next
    case (user_failed pk' tr1 e)
    from before_create(1,3)[OF user_failed(1,3)] user_failed(4) show ?thesis by simp
  next
    case (create_failed pk' tr1 uid tr2 kw e)
    from rp[OF create_failed(1)] have "pk' = Some text" by simp
    with before_create(1,3)[OF create_failed(1,3)] create_failed show ?thesis by simp
  next
    case (save_failed pk' tr1 uid tr2 kw kp e)
    from rp[OF save_failed(1)] have p': "pk' = Some text" by simp
    from save_private_key_cases[OF save_failed(6)] obtain ev where
      ev: "tr = (tr2 @ [CKeypairsCreate kw (Inr kp)]) @ ev" "\<forall>c \<in> set ev. is_file_io c"
      "\<not> truthy (c_private_key args) \<longrightarrow> Inl e = Inr () \<and> ev = []" by blast
    then have "create_requests tr = [kw]" "\<not> \<not> truthy (c_private_key args)"
      using before_create(1)[OF save_failed(1,3)] by (auto simp: file_io_only)
    with p' save_failed show ?thesis by simp
  next
    case (shaped pk' tr1 uid tr2 kw kp tr3)
    from rp[OF shaped(1)] have p': "pk' = Some text" by simp
    from save_private_key_cases[OF shaped(6)] obtain ev where
      ev: "tr3 = (tr2 @ [CKeypairsCreate kw (Inr kp)]) @ ev" "\<forall>c \<in> set ev. is_file_io c"
      by blast
    have ext: "tr = tr3 \<or> (\<exists>s. tr = tr3 @ [CStdoutWrite s])"
      using shaped(7) by (auto simp: create_result_eq split: if_splits sum.splits pyval.splits)
    from ext ev before_create(1)[OF shaped(1,3)] have req: "create_requests tr = [kw]"
      by (auto simp: file_io_only)
    show ?thesis
    proof (cases "text = []")
      case True
      with req p' shaped(4) show ?thesis by simp
    next
      case False
      with p' have t: "truthy pk'" by (simp add: truthy_def)
      from shaped(7) t have r: "r = Inr (Zipped (sorted_items (AList.delete ''private_key''
          (AList.delete ''public_key'' (dict_update [] (kp_info kp))))))" and tr: "tr = tr3"
        by (simp_all add: create_result_eq)
      let ?items = "sorted_items (AList.delete ''private_key''
          (AList.delete ''public_key'' (dict_update [] (kp_info kp))))"
      have m: "map_of ?items = (map_of (kp_info kp))(''public_key'' := None, ''private_key'' := None)"
        by (rule shaped_two(3))
      have ex: "''public_key'' \<notin> fst ` set ?items" "''private_key'' \<notin> fst ` set ?items"
        by (simp_all add: map_of_eq_None_iff[symmetric] m)
      have "CKeypairsCreate kw (Inr kp) \<in> set tr" using ev tr by simp
      with r m ex shaped_two(1,2)[of "''private_key''" "''public_key''" "kp_info kp"]
      have "\<exists>kw kp items. CKeypairsCreate kw (Inr kp) \<in> set tr \<and> Zipped ?items = Zipped items \<and>
             sorted (map fst items) \<and> distinct (map fst items) \<and>
             ''public_key'' \<notin> fst ` set items \<and> ''private_key'' \<notin> fst ` set items \<and>
             map_of items = (map_of (kp_info kp))(''public_key'' := None, ''private_key'' := None)"
        by blast
      with r req p' shaped(4) show ?thesis by simp
    qed
  qed
qed

text \<open>
  When the text of the file is empty and no private-key path is given, the test
  \<open>if public_key or private_key\<close> is false, since \<open>public_key\<close> holds the text
  of the file by then: no record is ever returned.
\<close>

lemma create_empty_public_key_no_record:
  assumes pk: "c_public_key args = Some p" "p \<noteq> []"
    and rd: "read_file E [] (expanduser E p) = Inr []"
    and nv: "\<not> truthy (c_private_key args)"
    and run: "CreateKeypair_take_action E args [] = (r, tr)"
  shows "r \<noteq> Inr (Zipped items)"
proof -
  have rp: "r0 = Inr (Some [])" if "read_public_key E args [] = (r0, tr1)" for r0 tr1
    using read_public_key_cases[OF that] pk rd by (auto simp: truthy_def str_of_def)
  from run show ?thesis
  proof (cases rule: create_run)
    case (shaped pk' tr1 uid tr2 kw kp tr3)
    from rp[OF shaped(1)] have "\<not> truthy pk'" by (simp add: truthy_def)
    with shaped(7) nv show ?thesis
      by (auto simp: create_result_eq split: sum.splits pyval.splits)
  qed simp_all
qed

lemma sample_public_key_run:
  "CreateKeypair_take_action (sample_env (APIVersion 2 1))
      (create_plain\<lparr>c_public_key := Some ''id.pub''\<rparr>) [] =
     (Inr (Zipped [(''fingerprint'', PStr ''aa:09''), (''name'', PStr ''new'')]),
      [CReadFile ''id.pub'' (Inr ''ssh-rsa AAAA''),
       CKeypairsCreate \<lparr>kw_name = ''new'', kw_public_key = Some ''ssh-rsa AAAA'', kw_key_type = None,
                         kw_user_id = None\<rparr>
         (Inr (Keypair [(''name'', PStr ''new''), (''fingerprint'', PStr ''aa:09''),
                        (''public_key'', PStr ''ssh-rsa CCCC''), (''private_key'', PStr ''PRIVATE'')]))])"
  by code_simp

text \<open>
  C6. Create with \<open>publicKeyPath\<close> set and a readable file at that path should send a
  create request whose \<open>public_key\<close> is the exact text of the file, and return the
  structured record without \<open>public_key\<close> and \<open>private_key\<close>, sorted by field
  name. The code does so for every file that is not empty (see
  \<open>create_public_key_record\<close>). For a readable file that is empty it sends the request
  with the empty text and then takes the other branch: it writes the private key of the
  keypair to standard output and returns \<open>({}, {})\<close>, as this run shows.
\<close>

theorem C6_create_empty_public_key_file:
  "c_public_key (create_plain\<lparr>c_public_key := Some ''empty.pub''\<rparr>) = Some ''empty.pub'' \<and>
   c_private_key (create_plain\<lparr>c_public_key := Some ''empty.pub''\<rparr>) = None \<and>
   read_file (sample_env (APIVersion 2 1)) [] (expanduser (sample_env (APIVersion 2 1)) ''empty.pub'') = Inr [] \<and>
   CreateKeypair_take_action (sample_env (APIVersion 2 1))
      (create_plain\<lparr>c_public_key := Some ''empty.pub''\<rparr>) [] =
     (Inr EmptyDicts,
      [CReadFile ''empty.pub'' (Inr []),
       CKeypairsCreate \<lparr>kw_name = ''new'', kw_public_key = Some [], kw_key_type = None,
                         kw_user_id = None\<rparr>
         (Inr (Keypair [(''name'', PStr ''new''), (''fingerprint'', PStr ''aa:09''),
                        (''public_key'', PStr ''ssh-rsa CCCC''), (''private_key'', PStr ''PRIVATE'')])),
       CStdoutWrite ''PRIVATE''])"
  by code_simp

text \<open>
  C7. Create with neither \<open>publicKeyPath\<close> nor \<open>privateKeyPath\<close>: once the create call
  has returned a keypair with a private key text, the command returns the empty record
  and has written exactly that text to standard output, and nothing else; and whenever
  the command returns, it returns the empty record after such a create call and write.
\<close>

theorem C7_create_prints_private_key:
  assumes np: "\<not> truthy (c_public_key args)" and nv: "\<not> truthy (c_private_key args)"
    and run: "CreateKeypair_take_action E args [] = (r, tr)"
  shows "(\<forall>kw kp s. CKeypairsCreate kw (Inr kp) \<in> set tr \<and>
              getattr kp ''private_key'' = Inr (PStr s) \<longrightarrow>
            r = Inr EmptyDicts \<and> stdout_of tr = [s])
       \<and> (\<forall>res. r = Inr res \<longrightarrow> res = EmptyDicts \<and>
            (\<exists>kw kp s. CKeypairsCreate kw (Inr kp) \<in> set tr \<and>
               getattr kp ''private_key'' = Inr (PStr s) \<and> stdout_of tr = [s]))"
proof -
  have rp: "r0 = Inr (c_public_key args)" if "read_public_key E args [] = (r0, tr1)" for r0 tr1
    using read_public_key_cases[OF that] np by auto
  from run show ?thesis
  proof (cases rule: create_run)
    case (read_failed e)
    with rp show ?thesis by fastforce
  next
    case (type_gate pk')
    from after_read(3)[OF type_gate(1)] type_gate(4) show ?thesis by simp
  next
    case (user_failed pk' tr1 e)
    from before_create(3)[OF user_failed(1,3)] user_failed(4) show ?thesis by simp
  next
    case (create_failed pk' tr1 uid tr2 kw e)
    with before_create(3)[OF create_failed(1,3)] show ?thesis by simp
  next
    case (save_failed pk' tr1 uid tr2 kw kp e)
    from save_private_key_cases[OF save_failed(6)] nv show ?thesis by auto
  next
    case (shaped pk' tr1 uid tr2 kw kp tr3)
    from rp[OF shaped(1)] np have t: "\<not> truthy pk'" by simp
    from save_private_key_cases[OF shaped(6)] nv
    have tr3: "tr3 = tr2 @ [CKeypairsCreate kw (Inr kp)]" by auto
    note nc = before_create(2,3)[OF shaped(1,3)]
    show ?thesis
    proof (cases "getattr kp ''private_key''")
      case (Inl e)
      with shaped(7) t nv tr3 nc show ?thesis
        by (auto simp: create_result_eq)
    next
      case (Inr v)
      show ?thesis
      proof (cases v)
        case (PStr s)
        with Inr shaped(7) t nv have "r = Inr EmptyDicts" "tr = tr3 @ [CStdoutWrite s]"
          by (simp_all add: create_result_eq)
        with tr3 nc Inr PStr show ?thesis by auto
      qed (use Inr shaped(7) t nv tr3 nc in \<open>auto simp: create_result_eq\<close>)
    qed
  qed
qed

lemma sample_create_plain_run:
  "CreateKeypair_take_action (sample_env (APIVersion 2 1)) create_plain [] =
     (Inr EmptyDicts,
      [CKeypairsCreate \<lparr>kw_name = ''new'', kw_public_key = None, kw_key_type = None, kw_user_id = None\<rparr>
         (Inr (Keypair [(''name'', PStr ''new''), (''fingerprint'', PStr ''aa:09''),
                        (''public_key'', PStr ''ssh-rsa CCCC''), (''private_key'', PStr ''PRIVATE'')])),
       CStdoutWrite ''PRIVATE''])"
  by code_simp

theorem C7_create_prints_private_key_witness:
  "Inr EmptyDicts = (Inr EmptyDicts :: exn + action_result) \<and>
   stdout_of
     [CKeypairsCreate \<lparr>kw_name = ''new'', kw_public_key = None, kw_key_type = None, kw_user_id = None\<rparr>
         (Inr (Keypair [(''name'', PStr ''new''), (''fingerprint'', PStr ''aa:09''),
                        (''public_key'', PStr ''ssh-rsa CCCC''), (''private_key'', PStr ''PRIVATE'')])),
      CStdoutWrite ''PRIVATE''] = [''PRIVATE'']"
proof -
  have h: "\<not> truthy (c_public_key create_plain)" "\<not> truthy (c_private_key create_plain)"
    by code_simp+
  let ?kp = "Keypair [(''name'', PStr ''new''), (''fingerprint'', PStr ''aa:09''),
                        (''public_key'', PStr ''ssh-rsa CCCC''), (''private_key'', PStr ''PRIVATE'')]"
  have g: "getattr ?kp ''private_key'' = Inr (PStr ''PRIVATE'')" by code_simp
  note t = C7_create_prints_private_key[OF h sample_create_plain_run]
  from t g show ?thesis by auto
qed

text \<open>
  A Show that has fetched a keypair: with \<open>publicKeyOnly\<close> and a public key that is a
  text, the result is the empty record and exactly that text is written to standard
  output; without \<open>publicKeyOnly\<close>, when the record of the keypair has a
  \<open>public_key\<close> field, the result is the record of all fields of the keypair except
  \<open>public_key\<close>, sorted by field name, and nothing is written. In both cases the
  same single lookup, of the name given, fetches the whole keypair: the remote calls
  do not depend on the flag.
\<close>

lemma show_record_with_public_key:
  assumes run: "ShowKeypair_take_action E args [] = (r, tr)"
    and got: "CFindResource n uid (Inr kp) \<in> set tr"
  shows "(s_public_key args \<longrightarrow>
            (\<forall>s. getattr kp ''public_key'' = Inr (PStr s) \<longrightarrow>
                 r = Inr EmptyDicts \<and> stdout_of tr = [s]))
       \<and> (\<not> s_public_key args \<and> has_key ''public_key'' (kp_info kp) \<longrightarrow>
            (\<exists>items. r = Inr (Zipped items) \<and> sorted (map fst items) \<and>
               distinct (map fst items) \<and> ''public_key'' \<notin> fst ` set items \<and>
               map_of items = (map_of (kp_info kp))(''public_key'' := None)) \<and>
            stdout_of tr = [])
       \<and> n = s_name args \<and> lookup_scopes tr = [(s_name args, uid)]
       \<and> filter is_remote (snd (ShowKeypair_take_action E (args\<lparr>s_public_key := True\<rparr>) [])) =
          filter is_remote (snd (ShowKeypair_take_action E (args\<lparr>s_public_key := False\<rparr>) []))"
proof -
  have same: "filter is_remote (snd (ShowKeypair_take_action E (args\<lparr>s_public_key := True\<rparr>) [])) =
          filter is_remote (snd (ShowKeypair_take_action E (args\<lparr>s_public_key := False\<rparr>) []))"
    by (simp add: ShowKeypair_take_action_def bind_def user_kwarg_eq do_find_resource_def
        show_result_eq Let_def split: sum.splits pyval.splits)
  from run have main: "(s_public_key args \<longrightarrow>
            (\<forall>s. getattr kp ''public_key'' = Inr (PStr s) \<longrightarrow>
                 r = Inr EmptyDicts \<and> stdout_of tr = [s]))
       \<and> (\<not> s_public_key args \<and> has_key ''public_key'' (kp_info kp) \<longrightarrow>
            (\<exists>items. r = Inr (Zipped items) \<and> sorted (map fst items) \<and>
               distinct (map fst items) \<and> ''public_key'' \<notin> fst ` set items \<and>
               map_of items = (map_of (kp_info kp))(''public_key'' := None)) \<and>
            stdout_of tr = [])
       \<and> n = s_name args \<and> lookup_scopes tr = [(s_name args, uid)]"
  proof (cases rule: show_run)
    case (user_failed e)
    with got show ?thesis by (auto simp: user_kwarg_eq split: if_splits)
  next
    case (lookup_failed uid' tr1 e)
    from lookup_failed(1) have "CFindResource n uid (Inr kp) \<notin> set tr1"
      by (auto simp: user_kwarg_eq split: if_splits)
    with got lookup_failed(4) show ?thesis by simp
  next
    case (fetched uid' tr1 kp')
    from fetched(1) have pre: "CFindResource n uid (Inr kp) \<notin> set tr1" "lookup_scopes tr1 = []"
      "stdout_of tr1 = []"
      by (auto simp: user_kwarg_eq split: if_splits)
    let ?tr2 = "tr1 @ [CFindResource (s_name args) uid' (Inr kp')]"
    from fetched(3) have ext: "tr = ?tr2 \<or> (\<exists>s. tr = ?tr2 @ [CStdoutWrite s])"
      by (auto simp: show_result_eq split: if_splits sum.splits pyval.splits)
    with got pre(1) have id: "n = s_name args" "uid = uid'" "kp = kp'" by auto
    from ext pre(2) id have ls: "lookup_scopes tr = [(s_name args, uid)]" by auto
    let ?items = "sorted_items (AList.delete ''public_key'' (dict_update [] (kp_info kp)))"
    have m: "map_of ?items = (map_of (kp_info kp))(''public_key'' := None)"
      by (rule shaped_one(3))
    have ex: "''public_key'' \<notin> fst ` set ?items"
      by (simp add: map_of_eq_None_iff[symmetric] m)
    have rec: "\<exists>items. r = Inr (Zipped items) \<and> sorted (map fst items) \<and>
               distinct (map fst items) \<and> ''public_key'' \<notin> fst ` set items \<and>
               map_of items = (map_of (kp_info kp))(''public_key'' := None)"
      and quiet: "stdout_of tr = []"
      if "\<not> s_public_key args" "has_key ''public_key'' (kp_info kp)"
    proof -
      from fetched(3) that id have "r = Inr (Zipped ?items)" "tr = ?tr2"
        by (simp_all add: show_result_eq)
      with m ex shaped_one(1,2)[of "''public_key''" "kp_info kp"] pre(3)
      show "\<exists>items. r = Inr (Zipped items) \<and> sorted (map fst items) \<and>
               distinct (map fst items) \<and> ''public_key'' \<notin> fst ` set items \<and>
               map_of items = (map_of (kp_info kp))(''public_key'' := None)"
        and "stdout_of tr = []"
        by auto
    qed
    have pub: "r = Inr EmptyDicts \<and> stdout_of tr = [s]"
      if "s_public_key args" "getattr kp ''public_key'' = Inr (PStr s)" for s
      using fetched(3) that id pre(3) by (auto simp: show_result_eq)
    from rec quiet pub id ls show ?thesis by blast
  qed
  with same show ?thesis by blast
qed

lemma sample_show_bare:
  "ShowKeypair_take_action (sample_env (APIVersion 2 1)) (show_plain\<lparr>s_name := ''bare''\<rparr>) [] =
     (Inl (KeyError ''public_key''),
      [CFindResource ''bare'' None
         (Inr (Keypair [(''name'', PStr ''bare''), (''fingerprint'', PStr ''aa:03'')]))])"
  by code_simp

lemma sample_show_run:
  "ShowKeypair_take_action (sample_env (APIVersion 2 1)) show_plain [] =
     (Inr (Zipped [(''fingerprint'', PStr ''aa:01''), (''name'', PStr ''A''),
                   (''type'', PStr ''ssh''), (''user_id'', PStr ''u1'')]),
      [CFindResource ''A'' None (Inr key_a)])"
  by code_simp

lemma sample_show_public_run:
  "ShowKeypair_take_action (sample_env (APIVersion 2 1)) (show_plain\<lparr>s_public_key := True\<rparr>) [] =
     (Inr EmptyDicts, [CFindResource ''A'' None (Inr key_a), CStdoutWrite ''ssh-rsa AAAA''])"
  by code_simp

text \<open>
  C8. A Show that has fetched a keypair should return, with \<open>publicKeyOnly\<close> false,
  the structured record of all fields of the keypair except \<open>public_key\<close>, sorted by
  field name (and with \<open>publicKeyOnly\<close> true the empty record, the public key going
  to standard output). The code does so when the fetched record has a \<open>public_key\<close>
  field (see \<open>show_record_with_public_key\<close>). Its removal of the field is not
  guarded, unlike the same removal in Create: for a fetched record without the field
  the outcome is the key error and no record, as this run shows.
\<close>

theorem C8_show_missing_public_key:
  "s_public_key (show_plain\<lparr>s_name := ''bare''\<rparr>) = False \<and>
   find_resource (sample_env (APIVersion 2 1)) [] ''bare'' None =
     Inr (Keypair [(''name'', PStr ''bare''), (''fingerprint'', PStr ''aa:03'')]) \<and>
   ShowKeypair_take_action (sample_env (APIVersion 2 1)) (show_plain\<lparr>s_name := ''bare''\<rparr>) [] =
     (Inl (KeyError ''public_key''),
      [CFindResource ''bare'' None
         (Inr (Keypair [(''name'', PStr ''bare''), (''fingerprint'', PStr ''aa:03'')]))])"
  by code_simp

text \<open>
  C9. Show without \<open>publicKeyOnly\<close> deletes the \<open>public_key\<close> field unconditionally:
  when the fetched record has no such field the outcome is the key error, and a record
  is produced only for a fetched keypair that has the field. Create guards the removal
  with a membership test: when its record branch is reached (the create call returned a
  keypair, the request carried a true public key, no private-key path), it returns a
  record even if the keypair has no \<open>public_key\<close> field.
\<close>

theorem C9_show_needs_public_key:
  "(\<forall>r tr n uid kp.
       ShowKeypair_take_action E sa [] = (r, tr) \<and> \<not> s_public_key sa \<and>
       CFindResource n uid (Inr kp) \<in> set tr \<and> \<not> has_key ''public_key'' (kp_info kp) \<longrightarrow>
       r = Inl (KeyError ''public_key''))
   \<and> (\<forall>r tr items.
       ShowKeypair_take_action E sa [] = (r, tr) \<and> r = Inr (Zipped items) \<longrightarrow>
       (\<exists>n uid kp. CFindResource n uid (Inr kp) \<in> set tr \<and> has_key ''public_key'' (kp_info kp)))
   \<and> (\<forall>r tr kw kp.
       CreateKeypair_take_action E ca [] = (r, tr) \<and> CKeypairsCreate kw (Inr kp) \<in> set tr \<and>
       truthy (kw_public_key kw) \<and> \<not> truthy (c_private_key ca) \<and>
       \<not> has_key ''public_key'' (kp_info kp) \<longrightarrow>
       (\<exists>items. r = Inr (Zipped items) \<and>
          map_of items = (map_of (kp_info kp))(''private_key'' := None)))"
proof (intro conjI allI impI)
  fix r tr n uid kp
  assume a: "ShowKeypair_take_action E sa [] = (r, tr) \<and> \<not> s_public_key sa \<and>
       CFindResource n uid (Inr kp) \<in> set tr \<and> \<not> has_key ''public_key'' (kp_info kp)"
  then have run: "ShowKeypair_take_action E sa [] = (r, tr)" by simp
  from run show "r = Inl (KeyError ''public_key'')"
  proof (cases rule: show_run)
    case (user_failed e)
    with a show ?thesis by (auto simp: user_kwarg_eq split: if_splits)
  next
    case (lookup_failed uid' tr1 e)
    from lookup_failed(1) have "CFindResource n uid (Inr kp) \<notin> set tr1"
      by (auto simp: user_kwarg_eq split: if_splits)
    with a lookup_failed(4) show ?thesis by simp
  next
    case (fetched uid' tr1 kp')
    from fetched(1) have pre: "CFindResource n uid (Inr kp) \<notin> set tr1"
      by (auto simp: user_kwarg_eq split: if_splits)
    from fetched(3) a have "tr = tr1 @ [CFindResource (s_name sa) uid' (Inr kp')]"
      by (auto simp: show_result_eq split: if_splits)
    with a pre have "kp = kp'" by auto
    with fetched(3) a show ?thesis by (auto simp: show_result_eq split: if_splits)
  qed
next
  fix r tr items
  assume a: "ShowKeypair_take_action E sa [] = (r, tr) \<and> r = Inr (Zipped items)"
  then have run: "ShowKeypair_take_action E sa [] = (r, tr)" by simp
  from run show "\<exists>n uid kp. CFindResource n uid (Inr kp) \<in> set tr \<and> has_key ''public_key'' (kp_info kp)"
  proof (cases rule: show_run)
    case (user_failed e)
    with a show ?thesis by simp
  next
    case (lookup_failed uid' tr1 e)
    with a show ?thesis by simp
  next
    case (fetched uid' tr1 kp')
    from fetched(3) a have "has_key ''public_key'' (kp_info kp')"
      "tr = tr1 @ [CFindResource (s_name sa) uid' (Inr kp')]"
      by (auto simp: show_result_eq split: if_splits sum.splits pyval.splits)
    then show ?thesis by auto
  qed
next
  fix r tr kw kp
  assume a: "CreateKeypair_take_action E ca [] = (r, tr) \<and> CKeypairsCreate kw (Inr kp) \<in> set tr \<and>
       truthy (kw_public_key kw) \<and> \<not> truthy (c_private_key ca) \<and>
       \<not> has_key ''public_key'' (kp_info kp)"
  then have run: "CreateKeypair_take_action E ca [] = (r, tr)"
    and mem: "CKeypairsCreate kw (Inr kp) \<in> set tr"
    and tk: "truthy (kw_public_key kw)" and nv: "\<not> truthy (c_private_key ca)"
    and nk: "\<not> has_key ''public_key'' (kp_info kp)" by simp_all
  from run show "\<exists>items. r = Inr (Zipped items) \<and>
          map_of items = (map_of (kp_info kp))(''private_key'' := None)"
  proof (cases rule: create_run)
    case (read_failed e)
    from after_read(3)[OF read_failed(1)] mem show ?thesis by simp
  next
    case (type_gate pk')
    from after_read(3)[OF type_gate(1)] mem show ?thesis by simp
  next
    case (user_failed pk' tr1 e)
    from before_create(3)[OF user_failed(1,3)] mem show ?thesis by simp
  next
    case (create_failed pk' tr1 uid tr2 kw' e)
    with before_create(3)[OF create_failed(1,3)] mem show ?thesis by simp
  next
    case (save_failed pk' tr1 uid tr2 kw' kp' e)
    from save_private_key_cases[OF save_failed(6)] nv show ?thesis by auto
  next
    case (shaped pk' tr1 uid tr2 kw' kp' tr3)
    from save_private_key_cases[OF shaped(6)] nv
    have tr3: "tr3 = tr2 @ [CKeypairsCreate kw' (Inr kp')]" by auto
    have ext: "tr = tr3 \<or> (\<exists>s. tr = tr3 @ [CStdoutWrite s])"
      using shaped(7) by (auto simp: create_result_eq split: if_splits sum.splits pyval.splits)
    with mem tr3 before_create(3)[OF shaped(1,3)] have id: "kw = kw'" "kp = kp'" by auto
    with shaped(4) tk have "truthy pk'" by simp
    with shaped(7) id have r: "r = Inr (Zipped (sorted_items (AList.delete ''private_key''
        (AList.delete ''public_key'' (dict_update [] (kp_info kp))))))"
      by (simp add: create_result_eq)
    from nk have "map_of (kp_info kp) ''public_key'' = None"
      by (simp add: has_key_def map_of_eq_None_iff)
    then have "(map_of (kp_info kp))(''public_key'' := None, ''private_key'' := None) =
        (map_of (kp_info kp))(''private_key'' := None)"
      by (auto simp: fun_eq_iff)
    with r shaped_two(3)[of "''private_key''" "''public_key''" "kp_info kp"] show ?thesis by simp
  qed
qed

theorem C9_show_needs_public_key_witness:
  "(Inl (KeyError ''public_key'') :: exn + action_result) = Inl (KeyError ''public_key'') \<and>
   ShowKeypair_take_action (sample_env (APIVersion 2 1)) (show_plain\<lparr>s_name := ''bare''\<rparr>) [] =
     (Inl (KeyError ''public_key''),
      [CFindResource ''bare'' None
         (Inr (Keypair [(''name'', PStr ''bare''), (''fingerprint'', PStr ''aa:03'')]))])"
proof -
  let ?kp = "Keypair [(''name'', PStr ''bare''), (''fingerprint'', PStr ''aa:03'')]"
  have h: "\<not> s_public_key (show_plain\<lparr>s_name := ''bare''\<rparr>)"
    "\<not> has_key ''public_key'' (kp_info ?kp)"
    by code_simp+
  have f: "CFindResource ''bare'' None (Inr ?kp) \<in> set [CFindResource ''bare'' None (Inr ?kp)]"
    by simp
  note t = C9_show_needs_public_key[of "sample_env (APIVersion 2 1)" "show_plain\<lparr>s_name := ''bare''\<rparr>"
      create_plain]
  from t sample_show_bare h f
  have "(Inl (KeyError ''public_key'') :: exn + action_result) = Inl (KeyError ''public_key'')"
    by blast
  with sample_show_bare show ?thesis by blast
qed

text \<open>
  C10. With a user argument that passes the 2.10 gate and is resolved, Delete looks
  every name up without a \<open>user_id\<close>, one lookup per name in input order, and passes
  the resolved \<open>user_id\<close> to every delete call; Show passes the resolved \<open>user_id\<close>
  to its lookup.
\<close>

theorem C10_delete_lookup_unscoped:
  assumes u: "truthy u" and v: "\<not> ver_lt (api_version E) (APIVersion 2 10)"
    and usr: "find_user E [] (str_of u) ud = Inr usr"
  shows "(d_user da = u \<and> d_user_domain da = ud \<longrightarrow>
            lookup_scopes (snd (DeleteKeypair_take_action E da [])) =
              map (\<lambda>n. (n, None)) (d_name da) \<and>
            (\<forall>x \<in> set (delete_scopes (snd (DeleteKeypair_take_action E da []))).
                snd x = Some (res_id usr)))
       \<and> (s_user sa = u \<and> s_user_domain sa = ud \<longrightarrow>
            lookup_scopes (snd (ShowKeypair_take_action E sa [])) =
              [(s_name sa, Some (res_id usr))])"
proof (intro conjI impI)
  have uk: "user_kwarg E u ud [] = (Inr (Some (res_id usr)), [CFindUser (str_of u) ud (Inr usr)])"
    using u v usr by (simp add: user_kwarg_eq)
  {
    assume a: "d_user da = u \<and> d_user_domain da = ud"
    obtain r tr where dn: "delete_names E (Some (res_id usr)) (d_name da)
        [CFindUser (str_of u) ud (Inr usr)] = (r, tr)"
      by (cases "delete_names E (Some (res_id usr)) (d_name da) [CFindUser (str_of u) ud (Inr usr)]")
    with a uk have run: "snd (DeleteKeypair_take_action E da []) = tr"
      by (simp add: DeleteKeypair_take_action_def bind_def)
    from delete_names_blocks[OF dn] obtain bs where
      bs: "tr = [CFindUser (str_of u) ud (Inr usr)] @ concat bs"
      "attempts E (Some (res_id usr)) [CFindUser (str_of u) ud (Inr usr)] (d_name da) bs" by blast
    from attempts_scopes[OF bs(2)] bs(1) run
    show "lookup_scopes (snd (DeleteKeypair_take_action E da [])) = map (\<lambda>n. (n, None)) (d_name da)"
      and "\<forall>x \<in> set (delete_scopes (snd (DeleteKeypair_take_action E da []))). snd x = Some (res_id usr)"
      by simp_all
  }
  {
    assume a: "s_user sa = u \<and> s_user_domain sa = ud"
    with uk show "lookup_scopes (snd (ShowKeypair_take_action E sa [])) = [(s_name sa, Some (res_id usr))]"
      by (simp add: ShowKeypair_take_action_def bind_def do_find_resource_def show_result_eq Let_def
          split: sum.splits pyval.splits)
  }
qed

theorem C10_delete_lookup_unscoped_witness:
  "lookup_scopes (snd (DeleteKeypair_take_action (sample_env (APIVersion 2 10))
      \<lparr>d_name = [''A'', ''B''], d_user = Some ''alice'', d_user_domain = None\<rparr> [])) =
     [(''A'', None), (''B'', None)] \<and>
   lookup_scopes (snd (ShowKeypair_take_action (sample_env (APIVersion 2 10))
      (show_plain\<lparr>s_user := Some ''alice''\<rparr>) [])) = [(''A'', Some ''u1'')]"
proof -
  let ?E = "sample_env (APIVersion 2 10)"
  let ?da = "\<lparr>d_name = [''A'', ''B''], d_user = Some ''alice'', d_user_domain = None\<rparr>"
  let ?sa = "show_plain\<lparr>s_user := Some ''alice''\<rparr>"
  have h: "truthy (Some ''alice'')" "\<not> ver_lt (api_version ?E) (APIVersion 2 10)"
    "find_user ?E [] (str_of (Some ''alice'')) None = Inr (Identity ''u1'')"
    by code_simp+
  have g: "d_user ?da = Some ''alice'' \<and> d_user_domain ?da = None"
    "s_user ?sa = Some ''alice'' \<and> s_user_domain ?sa = None"
    "d_name ?da = [''A'', ''B'']" "s_name ?sa = ''A''"
    by code_simp+
  from C10_delete_lookup_unscoped[OF h, of ?da ?sa] g show ?thesis
    by simp
qed

end
